theory Spec2Isabelle
  imports Complex_Main
begin

section \<open>Expression labels\<close>

text \<open>
  The driver in \<^verbatim>\<open>App\<close> (the tongue-aware version) and \<^verbatim>\<open>mapExpressionToMeme\<close> use the
  label set extended with \<^verbatim>\<open>"FREAKY"\<close>.  JavaScript numbers are modelled as \<^typ>\<open>real\<close>:
  rounding, NaN and the infinities of IEEE doubles are outside the model.
\<close>

text \<open>
  The sources modelled below: the classes \<^verbatim>\<open>EmaSmoother\<close>, \<^verbatim>\<open>SignalSmoother\<close> and
  \<^verbatim>\<open>LabelStabilizer\<close> of the smoother module (both copies carry the same code); the
  expression module with \<^verbatim>\<open>computeSignals\<close>, \<^verbatim>\<open>computeBlendshapeSignals\<close> and
  \<^verbatim>\<open>classifyExpression\<close>; the asset registry with \<^verbatim>\<open>getMeme\<close>; \<^verbatim>\<open>mapExpressionToMeme\<close>;
  and the component \<^verbatim>\<open>App\<close> in its latest version, with \<^verbatim>\<open>getTongueConfidence\<close>,
  \<^verbatim>\<open>classifyFromRanges\<close> and the callback \<^verbatim>\<open>onResult\<close> that \<^verbatim>\<open>startFaceLoop\<close> calls on
  every tick.
\<close>

datatype ExpressionLabel = NEUTRAL | SMILE | SCREAM | SQUINT | FREAKY

section \<open>smoother.ts: LabelStabilizer\<close>

record 'l LabelStabilizer =
  current :: 'l
  pending :: "'l option"
  pendingFrames :: nat
  lastSwitchAt :: real
  stableFrames :: real
  cooldownMs :: real

text \<open>
  \<^verbatim>\<open>constructor(initial: T, stableFrames = 4, cooldownMs = 500)\<close>: an omitted argument is
  \<open>None\<close> and takes the default written in the parameter list.
\<close>

definition LabelStabilizer_new :: "'l \<Rightarrow> real option \<Rightarrow> real option \<Rightarrow> 'l LabelStabilizer" where
  "LabelStabilizer_new initial sf cd =
     \<lparr> current = initial, pending = None, pendingFrames = 0, lastSwitchAt = 0,
       stableFrames = (case sf of None \<Rightarrow> 4 | Some n \<Rightarrow> n),
       cooldownMs = (case cd of None \<Rightarrow> 500 | Some c \<Rightarrow> c) \<rparr>"

text \<open>\<^verbatim>\<open>update(label, nowMs)\<close> returns the label and the mutated object.\<close>

definition LabelStabilizer_update ::
  "'l \<Rightarrow> real \<Rightarrow> 'l LabelStabilizer \<Rightarrow> 'l \<times> 'l LabelStabilizer" where
  "LabelStabilizer_update label nowMs s =
     (if label = current s then
        (current s, s\<lparr>pending := None, pendingFrames := 0\<rparr>)
      else if Some label \<noteq> pending s then
        (current s, s\<lparr>pending := Some label, pendingFrames := 1\<rparr>)
      else
        (let s1 = s\<lparr>pendingFrames := pendingFrames s + 1\<rparr> in
         if stableFrames s1 \<le> real (pendingFrames s1) \<and> cooldownMs s1 \<le> nowMs - lastSwitchAt s1
         then (label, s1\<lparr>current := label, pending := None, pendingFrames := 0,
                          lastSwitchAt := nowMs\<rparr>)
         else (current s1, s1)))"

definition getCurrent :: "'l LabelStabilizer \<Rightarrow> 'l" where
  "getCurrent s = current s"

text \<open>A sequence of \<^verbatim>\<open>update\<close> calls on one object: the final object, and the labels returned.\<close>

fun LabelStabilizer_updates ::
  "'l LabelStabilizer \<Rightarrow> ('l \<times> real) list \<Rightarrow> 'l LabelStabilizer" where
  "LabelStabilizer_updates s [] = s"
| "LabelStabilizer_updates s ((l, t) # us) =
     LabelStabilizer_updates (snd (LabelStabilizer_update l t s)) us"

fun LabelStabilizer_returns ::
  "'l LabelStabilizer \<Rightarrow> ('l \<times> real) list \<Rightarrow> 'l list" where
  "LabelStabilizer_returns s [] = []"
| "LabelStabilizer_returns s ((l, t) # us) =
     fst (LabelStabilizer_update l t s) #
     LabelStabilizer_returns (snd (LabelStabilizer_update l t s)) us"

text \<open>The label stream \<open>a, c, a, c, \<dots>\<close> of a given length.\<close>

fun alternating :: "'l \<Rightarrow> 'l \<Rightarrow> nat \<Rightarrow> 'l list" where
  "alternating a c 0 = []"
| "alternating a c (Suc n) = a # alternating c a n"


text \<open>
  Trace-side notions used to state the commit invariant: the times at which a sequence of
  updates changed \<open>current\<close>, the last of them (0 before the first switch, the value the
  constructor gives \<open>lastSwitchAt\<close>), and the fact that \<open>pendingFrames\<close> counts the trailing
  updates that carried the pending label.
\<close>

fun switchTimes :: "'l LabelStabilizer \<Rightarrow> ('l \<times> real) list \<Rightarrow> real list" where
  "switchTimes s [] = []"
| "switchTimes s ((l, t) # us) =
     (if current (snd (LabelStabilizer_update l t s)) \<noteq> current s then [t] else []) @
     switchTimes (snd (LabelStabilizer_update l t s)) us"

definition lastSwitchTime :: "'l LabelStabilizer \<Rightarrow> ('l \<times> real) list \<Rightarrow> real" where
  "lastSwitchTime s us = last (0 # switchTimes s us)"

definition pending_counts :: "'l LabelStabilizer \<Rightarrow> ('l \<times> real) list \<Rightarrow> bool" where
  "pending_counts s us \<longleftrightarrow>
     (case pending s of
        None \<Rightarrow> pendingFrames s = 0
      | Some l \<Rightarrow> 1 \<le> pendingFrames s \<and> pendingFrames s \<le> length us
                 \<and> (\<forall>u \<in> set (drop (length us - pendingFrames s) us). fst u = l))"

section \<open>smoother.ts: EmaSmoother and SignalSmoother\<close>

record EmaSmoother =
  ema_alpha :: real
  ema_value :: "real option"

definition EmaSmoother_new :: "real option \<Rightarrow> EmaSmoother" where
  "EmaSmoother_new a = \<lparr> ema_alpha = (case a of None \<Rightarrow> 0.35 | Some v \<Rightarrow> v), ema_value = None \<rparr>"

definition EmaSmoother_update :: "real \<Rightarrow> EmaSmoother \<Rightarrow> real \<times> EmaSmoother" where
  "EmaSmoother_update next e =
     (case ema_value e of
        None \<Rightarrow> (next, e\<lparr>ema_value := Some next\<rparr>)
      | Some v \<Rightarrow>
          (let v' = ema_alpha e * next + (1 - ema_alpha e) * v
           in (v', e\<lparr>ema_value := Some v'\<rparr>)))"

text \<open>
  \<^verbatim>\<open>SignalSmoother\<close>: a dictionary of per-key smoothers, created on first sight of a key.
  The signal object is given by its entries in key order (\<^verbatim>\<open>Object.keys\<close>); the output
  carries the same keys with the smoothed values.  The keys are those of a signal object
  (\<^verbatim>\<open>faceW\<close>, \<^verbatim>\<open>mouthOpen\<close>, \<^verbatim>\<open>smile\<close>, \<^verbatim>\<open>eyeOpen\<close>); none of them names a member
  that the dictionary object inherits.
\<close>

record SignalSmoother =
  smoothers :: "string \<rightharpoonup> EmaSmoother"
  ss_alpha :: real

definition SignalSmoother_new :: "real option \<Rightarrow> SignalSmoother" where
  "SignalSmoother_new a =
     \<lparr> smoothers = Map.empty, ss_alpha = (case a of None \<Rightarrow> 0.35 | Some v \<Rightarrow> v) \<rparr>"

fun SignalSmoother_update ::
  "(string \<times> real) list \<Rightarrow> SignalSmoother \<Rightarrow> (string \<times> real) list \<times> SignalSmoother" where
  "SignalSmoother_update [] ss = ([], ss)"
| "SignalSmoother_update ((k, v) # kvs) ss =
     (let e = (case smoothers ss k of
                 None \<Rightarrow> EmaSmoother_new (Some (ss_alpha ss))
               | Some e0 \<Rightarrow> e0);
          (v', e') = EmaSmoother_update v e;
          (out, ss') = SignalSmoother_update kvs (ss\<lparr>smoothers := (smoothers ss)(k \<mapsto> e')\<rparr>)
      in ((k, v') # out, ss'))"

section \<open>expression.ts\<close>

record ExpressionSignals =
  faceW :: real
  mouthOpen :: real
  smile :: real
  eyeOpen :: real

text \<open>
  The threshold object's field \<^verbatim>\<open>smile\<close> is named \<open>smileThreshold\<close> here, the name
  \<open>smile\<close> being taken by the signal.
\<close>

record ExpressionThresholds =
  mouthOpenScream :: real
  smileThreshold :: real
  mouthOpenSmileMax :: real
  eyeOpenSquint :: real

record BlendshapeCategory =
  categoryName :: string
  score :: real

datatype Landmark = Landmark (x_of: real) (y_of: real)

datatype error = TypeError

text \<open>The table \<^verbatim>\<open>IDX\<close> of landmark indices.\<close>

definition IDX_leftCheek :: nat where "IDX_leftCheek = 234"
definition IDX_rightCheek :: nat where "IDX_rightCheek = 454"
definition IDX_noseTip :: nat where "IDX_noseTip = 1"
definition IDX_chin :: nat where "IDX_chin = 152"
definition IDX_leftEyeOuter :: nat where "IDX_leftEyeOuter = 33"
definition IDX_leftEyeInner :: nat where "IDX_leftEyeInner = 133"
definition IDX_upperLip :: nat where "IDX_upperLip = 13"
definition IDX_lowerLip :: nat where "IDX_lowerLip = 14"
definition IDX_mouthLeft :: nat where "IDX_mouthLeft = 61"
definition IDX_mouthRight :: nat where "IDX_mouthRight = 291"
definition IDX_leftEyeTop :: nat where "IDX_leftEyeTop = 159"
definition IDX_leftEyeBottom :: nat where "IDX_leftEyeBottom = 145"
definition IDX_rightEyeOuter :: nat where "IDX_rightEyeOuter = 263"
definition IDX_rightEyeInner :: nat where "IDX_rightEyeInner = 362"
definition IDX_rightEyeTop :: nat where "IDX_rightEyeTop = 386"
definition IDX_rightEyeBottom :: nat where "IDX_rightEyeBottom = 374"

text \<open>\<^verbatim>\<open>Math.hypot(a.x - b.x, a.y - b.y)\<close>; the optional \<^verbatim>\<open>z\<close> is never read.\<close>

definition dist2D :: "Landmark \<Rightarrow> Landmark \<Rightarrow> real" where
  "dist2D a b = sqrt ((x_of a - x_of b)\<^sup>2 + (y_of a - y_of b)\<^sup>2)"

text \<open>
  \<^verbatim>\<open>categories.find(entry => entry.categoryName === name)\<close>, then the score of the entry
  found, or \<^verbatim>\<open>null\<close>.
\<close>

definition getScore :: "BlendshapeCategory list \<Rightarrow> string \<Rightarrow> real option" where
  "getScore cats name = map_option score (find (\<lambda>entry. categoryName entry = name) cats)"

text \<open>The operator \<^verbatim>\<open>??\<close> on an optional number.\<close>

definition orElse :: "'a option \<Rightarrow> 'a \<Rightarrow> 'a" where
  "orElse v d = (case v of None \<Rightarrow> d | Some w \<Rightarrow> w)"

record BlendshapeDebug =
  jawOpen :: real
  mouthFunnel :: real
  mouthSmile :: real
  eyeSquint :: real

definition getBlendshapeDebug :: "BlendshapeCategory list option \<Rightarrow> BlendshapeDebug option" where
  "getBlendshapeDebug categories =
     (case categories of
        None \<Rightarrow> None
      | Some cats \<Rightarrow>
          if length cats = 0 then None
          else
            (let jawOpen' = orElse (getScore cats ''jawOpen'') 0;
                 mouthFunnel' = orElse (getScore cats ''mouthFunnel'') 0;
                 mouthSmileLeft = orElse (getScore cats ''mouthSmileLeft'') 0;
                 mouthSmileRight = orElse (getScore cats ''mouthSmileRight'') 0;
                 eyeSquintLeft = orElse (getScore cats ''eyeSquintLeft'') 0;
                 eyeSquintRight = orElse (getScore cats ''eyeSquintRight'') 0
             in Some \<lparr> jawOpen = jawOpen', mouthFunnel = mouthFunnel',
                       mouthSmile = (mouthSmileLeft + mouthSmileRight) / 2,
                       eyeSquint = (eyeSquintLeft + eyeSquintRight) / 2 \<rparr>))"

definition computeBlendshapeSignals ::
  "BlendshapeCategory list option \<Rightarrow> ExpressionSignals option" where
  "computeBlendshapeSignals categories =
     (case categories of
        None \<Rightarrow> None
      | Some cats \<Rightarrow>
          if length cats = 0 then None
          else
            (let jawOpen' = orElse (getScore cats ''jawOpen'') 0;
                 mouthFunnel' = orElse (getScore cats ''mouthFunnel'') 0;
                 mouthSmileLeft = orElse (getScore cats ''mouthSmileLeft'') 0;
                 mouthSmileRight = orElse (getScore cats ''mouthSmileRight'') 0;
                 eyeSquintLeft = orElse (getScore cats ''eyeSquintLeft'') 0;
                 eyeSquintRight = orElse (getScore cats ''eyeSquintRight'') 0;
                 mouthOpen' = min 1 (jawOpen' + mouthFunnel' * 0.5);
                 smile' = min 1 ((mouthSmileLeft + mouthSmileRight) / 2);
                 eyeOpen' = max 0 (1 - (eyeSquintLeft + eyeSquintRight) / 2)
             in Some \<lparr> faceW = 1, mouthOpen = mouthOpen', smile = smile',
                       eyeOpen = eyeOpen' \<rparr>))"

text \<open>
  \<^verbatim>\<open>computeSignals\<close> reads fourteen entries of the landmark array.  Reading \<^verbatim>\<open>.x\<close> of an
  entry beyond the end of the array throws a \<^verbatim>\<open>TypeError\<close>.
\<close>

definition IDX_read :: "nat list" where
  "IDX_read = [IDX_leftEyeOuter, IDX_rightEyeOuter, IDX_noseTip, IDX_chin, IDX_mouthLeft,
               IDX_mouthRight, IDX_upperLip, IDX_lowerLip, IDX_leftEyeInner, IDX_rightEyeInner,
               IDX_leftEyeTop, IDX_leftEyeBottom, IDX_rightEyeTop, IDX_rightEyeBottom]"

definition computeSignals :: "Landmark list \<Rightarrow> error + ExpressionSignals" where
  "computeSignals landmarks =
     (if list_ex (\<lambda>i. length landmarks \<le> i) IDX_read then Inl TypeError
      else
        (let faceW' = max (dist2D (landmarks ! IDX_leftEyeOuter) (landmarks ! IDX_rightEyeOuter))
                          (1 / 1000000);
             faceH = max (dist2D (landmarks ! IDX_noseTip) (landmarks ! IDX_chin)) (1 / 1000000);
             mouthWidth = max (dist2D (landmarks ! IDX_mouthLeft) (landmarks ! IDX_mouthRight))
                              (1 / 1000000);
             mouthOpen' = dist2D (landmarks ! IDX_upperLip) (landmarks ! IDX_lowerLip) / faceH;
             smile' = mouthWidth / faceW';
             leftEyeWidth =
               max (dist2D (landmarks ! IDX_leftEyeOuter) (landmarks ! IDX_leftEyeInner))
                   (1 / 1000000);
             rightEyeWidth =
               max (dist2D (landmarks ! IDX_rightEyeInner) (landmarks ! IDX_rightEyeOuter))
                   (1 / 1000000);
             leftEyeOpen =
               dist2D (landmarks ! IDX_leftEyeTop) (landmarks ! IDX_leftEyeBottom) / leftEyeWidth;
             rightEyeOpen =
               dist2D (landmarks ! IDX_rightEyeTop) (landmarks ! IDX_rightEyeBottom)
                 / rightEyeWidth;
             eyeOpen' = (leftEyeOpen + rightEyeOpen) / 2
         in Inr \<lparr> faceW = faceW', mouthOpen = mouthOpen', smile = smile',
                   eyeOpen = eyeOpen' \<rparr>))"

definition defaultThresholds :: ExpressionThresholds where
  "defaultThresholds =
     \<lparr> mouthOpenScream = 0.28, smileThreshold = 0.62, mouthOpenSmileMax = 0.18,
       eyeOpenSquint = 0.12 \<rparr>"

definition classifyExpression :: "ExpressionSignals \<Rightarrow> ExpressionThresholds \<Rightarrow> ExpressionLabel" where
  "classifyExpression sig thresholds =
     (let screamTriggered =
            (if mouthOpenScream thresholds < 0
             then mouthOpen sig < mouthOpenScream thresholds
             else mouthOpen sig > mouthOpenScream thresholds)
      in if screamTriggered then SCREAM
         else
           (let smileTriggered =
                  (if smileThreshold thresholds < 0
                   then smile sig < smileThreshold thresholds
                   else smile sig > smileThreshold thresholds);
                mouthOk =
                  (if mouthOpenSmileMax thresholds < 0
                   then mouthOpen sig > mouthOpenSmileMax thresholds
                   else mouthOpen sig < mouthOpenSmileMax thresholds)
            in if smileTriggered \<and> mouthOk then SMILE
               else
                 (let squintTriggered =
                        (if eyeOpenSquint thresholds < 0
                         then eyeOpen sig < eyeOpenSquint thresholds
                         else eyeOpen sig < eyeOpenSquint thresholds)
                  in if squintTriggered then SQUINT else NEUTRAL)))"


section \<open>memeRegistry.ts and mapToMeme.ts\<close>

datatype MemeType = Image | Video

record MemeAsset =
  asset_key :: string
  asset_type :: MemeType
  asset_src :: string

definition DEFAULT_MEME_KEY :: string where
  "DEFAULT_MEME_KEY = ''neutral''"

text \<open>The own properties of the object literal \<^verbatim>\<open>MEMES\<close>, in source order.\<close>

definition MEMES :: "(string \<times> MemeAsset) list" where
  "MEMES =
     [(''neutral'', \<lparr> asset_key = ''neutral'', asset_type = Image, asset_src = ''/memes/neutral.jpeg'' \<rparr>),
      (''smile'', \<lparr> asset_key = ''smile'', asset_type = Image, asset_src = ''/memes/smile.jpg'' \<rparr>),
      (''grin'', \<lparr> asset_key = ''grin'', asset_type = Image, asset_src = ''/memes/grin.png'' \<rparr>),
      (''scream'', \<lparr> asset_key = ''scream'', asset_type = Image, asset_src = ''/memes/scream.png'' \<rparr>),
      (''judging'', \<lparr> asset_key = ''judging'', asset_type = Image, asset_src = ''/memes/judging.jpg'' \<rparr>),
      (''tilt_left'', \<lparr> asset_key = ''tilt_left'', asset_type = Image, asset_src = ''/memes/tilt_left.jpg'' \<rparr>),
      (''tilt_right'', \<lparr> asset_key = ''tilt_right'', asset_type = Image, asset_src = ''/memes/tilt_right.jpeg'' \<rparr>),
      (''look_left'', \<lparr> asset_key = ''look_left'', asset_type = Image, asset_src = ''/memes/look_left.png'' \<rparr>),
      (''look_right'', \<lparr> asset_key = ''look_right'', asset_type = Image, asset_src = ''/memes/look_right.jpg'' \<rparr>),
      (''look_up'', \<lparr> asset_key = ''look_up'', asset_type = Image, asset_src = ''/memes/look_up.jpeg'' \<rparr>),
      (''look_down'', \<lparr> asset_key = ''look_down'', asset_type = Image, asset_src = ''/memes/look_down.png'' \<rparr>)]"

text \<open>
  \<^verbatim>\<open>MEMES\<close> is a plain object literal, so the read \<^verbatim>\<open>MEMES[key]\<close> follows the prototype
  chain: an own property first, then the members every object inherits from
  \<^verbatim>\<open>Object.prototype\<close>, and \<^verbatim>\<open>undefined\<close> only when neither has the name.  The inherited
  members are functions (and, for \<^verbatim>\<open>__proto__\<close>, the prototype object): none is \<^verbatim>\<open>null\<close> or
  \<^verbatim>\<open>undefined\<close>.
\<close>

definition Object_prototype :: "string list" where
  "Object_prototype =
     [''constructor'', ''__defineGetter__'', ''__defineSetter__'', ''hasOwnProperty'',
      ''__lookupGetter__'', ''__lookupSetter__'', ''isPrototypeOf'', ''propertyIsEnumerable'',
      ''toString'', ''valueOf'', ''__proto__'', ''toLocaleString'']"

datatype 'a property = Own 'a | Inherited string

definition MEMES_get :: "string \<Rightarrow> MemeAsset property option" where
  "MEMES_get k =
     (case map_of MEMES k of
        Some a \<Rightarrow> Some (Own a)
      | None \<Rightarrow> if k \<in> set Object_prototype then Some (Inherited k) else None)"

text \<open>\<^verbatim>\<open>MEMES[key] ?? MEMES[DEFAULT_MEME_KEY]\<close>: the right operand is used only for a nullish left.\<close>

definition getMeme :: "string \<Rightarrow> MemeAsset property option" where
  "getMeme k = (case MEMES_get k of Some v \<Rightarrow> Some v | None \<Rightarrow> MEMES_get DEFAULT_MEME_KEY)"

definition listMemes :: "MemeAsset list" where
  "listMemes = map snd MEMES"

fun mapExpressionToMeme :: "ExpressionLabel \<Rightarrow> string" where
  "mapExpressionToMeme FREAKY = ''freaky''"
| "mapExpressionToMeme SCREAM = ''scream''"
| "mapExpressionToMeme SMILE = ''smile''"
| "mapExpressionToMeme SQUINT = ''judging''"
| "mapExpressionToMeme NEUTRAL = ''neutral''"

section \<open>App.tsx: the tongue colour detector and the range classifier\<close>

text \<open>\<^verbatim>\<open>landmarks[i]\<close> on a JavaScript array: \<^verbatim>\<open>undefined\<close> beyond the end.\<close>

definition nth_opt :: "'a list \<Rightarrow> nat \<Rightarrow> 'a option" where
  "nth_opt xs i = (if i < length xs then Some (xs ! i) else None)"

text \<open>
  What \<^verbatim>\<open>getTongueConfidence\<close> reads from the video element and the canvas: the frame
  size, whether \<^verbatim>\<open>getContext("2d")\<close> gives a context, and the bytes (RGBA, row by row) that
  \<^verbatim>\<open>getImageData\<close> returns after the crop at \<open>(sx, sy)\<close> of size \<open>w \<times> h\<close> has been drawn.
  The two canvas calls are taken not to throw.
\<close>

record VideoFrame =
  videoWidth :: nat
  videoHeight :: nat
  canvasCtx :: bool
  frameData :: "int \<Rightarrow> int \<Rightarrow> int \<Rightarrow> int \<Rightarrow> nat list"

text \<open>The crop computed from the four mouth landmarks (the arithmetic before the canvas is touched).\<close>

record TongueCrop =
  mouthWidth :: real
  mouthHeight :: real
  sampleWidth :: int
  sampleHeight :: int
  centerX :: real
  centerY :: real
  sampleX :: int
  sampleY :: int
  clampedWidth :: int
  clampedHeight :: int

definition tongueCrop ::
  "nat \<Rightarrow> nat \<Rightarrow> Landmark \<Rightarrow> Landmark \<Rightarrow> Landmark \<Rightarrow> Landmark \<Rightarrow> TongueCrop" where
  "tongueCrop width height mouthLeft mouthRight upperLip lowerLip =
     (let left = x_of mouthLeft * real width;
          right = x_of mouthRight * real width;
          top' = y_of upperLip * real height;
          bottom = y_of lowerLip * real height;
          mouthWidth' = max (right - left) 1;
          mouthHeight' = max (bottom - top') 1;
          sampleWidth' = max 6 \<lfloor>mouthWidth' * 0.5\<rfloor>;
          sampleHeight' = max 4 \<lfloor>mouthHeight' * 0.6\<rfloor>;
          centerX' = (left + right) / 2;
          centerY' = (top' + bottom) / 2 + mouthHeight' * 0.1;
          sampleX' = max 0 \<lfloor>centerX' - real_of_int sampleWidth' / 2\<rfloor>;
          sampleY' = max 0 \<lfloor>centerY' - real_of_int sampleHeight' / 2\<rfloor>;
          clampedWidth' = min sampleWidth' (int width - sampleX');
          clampedHeight' = min sampleHeight' (int height - sampleY')
      in \<lparr> mouthWidth = mouthWidth', mouthHeight = mouthHeight',
           sampleWidth = sampleWidth', sampleHeight = sampleHeight',
           centerX = centerX', centerY = centerY', sampleX = sampleX', sampleY = sampleY',
           clampedWidth = clampedWidth', clampedHeight = clampedHeight' \<rparr>)"

definition redDominant :: "nat \<Rightarrow> nat \<Rightarrow> nat \<Rightarrow> bool" where
  "redDominant r g b \<longleftrightarrow>
     r > 50 \<and> r > g + 10 \<and> r > b + 10 \<and> real r - (real g + real b) / 2 > 8"

text \<open>
  The loop \<^verbatim>\<open>for (i = 0; i < data.length; i += 4)\<close> with its two counters (\<open>total'\<close> is the source's \<^verbatim>\<open>total\<close>).  A trailing
  group that lacks the green or blue byte reads \<^verbatim>\<open>undefined\<close>, which makes the comparison
  false; the alpha byte is never read.
\<close>

fun redLoop :: "nat list \<Rightarrow> nat \<Rightarrow> nat \<Rightarrow> nat \<times> nat" where
  "redLoop (r # g # b # a # rest) redCount total' =
     redLoop rest (if redDominant r g b then redCount + 1 else redCount) (total' + 1)"
| "redLoop [r, g, b] redCount total' =
     ((if redDominant r g b then redCount + 1 else redCount), total' + 1)"
| "redLoop [] redCount total' = (redCount, total')"
| "redLoop partial redCount total' = (redCount, total' + 1)"

definition getTongueConfidence :: "VideoFrame \<Rightarrow> Landmark list \<Rightarrow> real option" where
  "getTongueConfidence video landmarks =
     (case (nth_opt landmarks 61, nth_opt landmarks 291, nth_opt landmarks 13,
            nth_opt landmarks 14) of
        (Some mouthLeft, Some mouthRight, Some upperLip, Some lowerLip) \<Rightarrow>
          if videoWidth video = 0 \<or> videoHeight video = 0 then None
          else
            (let c = tongueCrop (videoWidth video) (videoHeight video)
                       mouthLeft mouthRight upperLip lowerLip
             in if clampedWidth c \<le> 0 \<or> clampedHeight c \<le> 0 then None
                else if \<not> canvasCtx video then None
                else
                  (let data = frameData video (sampleX c) (sampleY c)
                                (clampedWidth c) (clampedHeight c);
                       (redCount, total') = redLoop data 0 0
                   in if total' = 0 then None else Some (real redCount / real total')))
      | _ \<Rightarrow> None)"

definition classifyFromRanges ::
  "ExpressionSignals \<Rightarrow> ExpressionSignals \<Rightarrow> ExpressionSignals \<Rightarrow> ExpressionLabel" where
  "classifyFromRanges sig mn mx =
     (let mouthRange = mouthOpen mx - mouthOpen mn;
          smileRange = smile mx - smile mn;
          eyeRange = eyeOpen mx - eyeOpen mn
      in if mouthRange < 0.05 \<and> smileRange < 0.05 \<and> eyeRange < 0.05 then NEUTRAL
         else
           (let screamT = mouthOpen mn + mouthRange * 0.7;
                smileT = smile mn + smileRange * 0.75;
                smileMouthMax = mouthOpen mn + mouthRange * 0.6;
                squintT = eyeOpen mn + eyeRange * 0.4;
                mouthMargin = mouthRange * 0.08;
                smileMargin = smileRange * 0.08;
                eyeMargin = eyeRange * 0.08
            in if mouthOpen sig > screamT + mouthMargin then SCREAM
               else if smile sig > smileT + smileMargin \<and> mouthOpen sig < smileMouthMax
                 then SMILE
               else if eyeOpen sig < squintT - eyeMargin * 0.5 \<and> mouthOpen sig < smileMouthMax
                 then SQUINT
               else NEUTRAL))"


section \<open>App.tsx: the state of the driver\<close>

datatype SignalSource = Blendshapes | Landmarks

text \<open>
  The driver reads \<^verbatim>\<open>blendDebug.tongueOut\<close> and \<^verbatim>\<open>blendDebug.mouthUpperUp\<close>.  The object that
  \<^verbatim>\<open>getBlendshapeDebug\<close> returns has the four properties \<^verbatim>\<open>jawOpen\<close>, \<^verbatim>\<open>mouthFunnel\<close>,
  \<^verbatim>\<open>mouthSmile\<close> and \<^verbatim>\<open>eyeSquint\<close> and no other, so both reads give \<^verbatim>\<open>undefined\<close>, whatever
  the category list holds.
\<close>

definition tongueOut :: "BlendshapeDebug \<Rightarrow> real option" where
  "tongueOut d = None"

definition mouthUpperUp :: "BlendshapeDebug \<Rightarrow> real option" where
  "mouthUpperUp d = None"

record Calibration =
  count :: nat
  baseline :: ExpressionSignals

record Extremes =
  ext_min :: "ExpressionSignals option"
  ext_max :: "ExpressionSignals option"
  maxMouthOpen :: "ExpressionSignals option"
  minMouthOpen :: "ExpressionSignals option"
  maxSmile :: "ExpressionSignals option"
  minSmile :: "ExpressionSignals option"
  maxEyeOpen :: "ExpressionSignals option"
  minEyeOpen :: "ExpressionSignals option"

text \<open>
  The callback \<^verbatim>\<open>onResult\<close> is created once, when the video becomes ready; the React state
  variables it mentions (\<^verbatim>\<open>status\<close>, \<^verbatim>\<open>debug\<close>, \<^verbatim>\<open>calibrated\<close>) are the values of that render.
\<close>

record Closure =
  cl_status :: string
  cl_debug :: bool
  cl_calibrated :: bool

text \<open>
  One call of \<^verbatim>\<open>onResult\<close>: the detection result (\<open>faceLandmarks\<close>, and \<open>categories\<close> for
  \<^verbatim>\<open>result.faceBlendshapes?.[0]?.categories\<close>) and what the callback reads from its
  environment (the video element, its track, \<^verbatim>\<open>performance.now()\<close>).
\<close>

record Frame =
  videoPresent :: bool
  readyState :: nat
  currentTime :: real
  trackLive :: bool
  now :: real
  video :: VideoFrame
  faceLandmarks :: "Landmark list list option"
  categories :: "BlendshapeCategory list option"

text \<open>The refs of the component, then its React state.\<close>

record AppState =
  lastDetectedAt :: "real option"
  lastFaceState :: bool
  lastVideoTime :: "real option"
  lastVideoTimeAt :: real
  smoother :: SignalSmoother
  labelStabilizer :: "ExpressionLabel LabelStabilizer"
  loopStarted :: bool
  tongueHoldUntil :: real
  toothySmile :: bool
  calibration :: Calibration
  extremes :: Extremes
  tongueCanvas :: bool
  status :: string
  selectedKey :: string
  faceDetected :: bool
  expressionLabel :: ExpressionLabel
  rawExpressionLabel :: ExpressionLabel
  signals :: "ExpressionSignals option"
  signalSource :: SignalSource
  blendshapeDebug :: "BlendshapeDebug option"
  tongueConfidence :: "real option"
  calibrated :: bool

definition FACE_HOLD_MS :: real where
  "FACE_HOLD_MS = 500"

definition resetLabelStabilizer :: "ExpressionLabel LabelStabilizer" where
  "resetLabelStabilizer = LabelStabilizer_new NEUTRAL (Some 5) (Some 600)"

definition App_init :: AppState where
  "App_init =
     \<lparr> lastDetectedAt = None, lastFaceState = False, lastVideoTime = None, lastVideoTimeAt = 0,
       smoother = SignalSmoother_new (Some 0.25),
       labelStabilizer = LabelStabilizer_new NEUTRAL (Some 5) (Some 600),
       loopStarted = False, tongueHoldUntil = 0, toothySmile = False,
       calibration = \<lparr> count = 0,
                       baseline = \<lparr> faceW = 1, mouthOpen = 0, smile = 0, eyeOpen = 0 \<rparr> \<rparr>,
       extremes = \<lparr> ext_min = None, ext_max = None, maxMouthOpen = None, minMouthOpen = None,
                    maxSmile = None, minSmile = None, maxEyeOpen = None, minEyeOpen = None \<rparr>,
       tongueCanvas = False, status = ''Idle'', selectedKey = ''neutral'', faceDetected = False,
       expressionLabel = NEUTRAL, rawExpressionLabel = NEUTRAL, signals = None,
       signalSource = Landmarks, blendshapeDebug = None, tongueConfidence = None,
       calibrated = False \<rparr>"

section \<open>App.tsx: the blocks of onResult, in source order\<close>

text \<open>The first successful callback flips the status from Loading to Running.\<close>

definition markLoopStarted :: "Closure \<Rightarrow> AppState \<Rightarrow> AppState" where
  "markLoopStarted cl s =
     (if \<not> loopStarted s then
        (let s1 = s\<lparr>loopStarted := True\<rparr>
         in if cl_status cl = ''Loading'' then s1\<lparr>status := ''Running''\<rparr> else s1)
      else s)"

text \<open>
  The three early returns (video not ready, stalled video time, track not live).  Only the
  third also clears the blendshape read-out.
\<close>

definition forceAbsent :: "Closure \<Rightarrow> bool \<Rightarrow> AppState \<Rightarrow> AppState" where
  "forceAbsent cl clearBlend s =
     (let s1 = s\<lparr>lastDetectedAt := None\<rparr>;
          s2 = (if lastFaceState s1 then s1\<lparr>lastFaceState := False, faceDetected := False\<rparr>
                else s1);
          s3 = s2\<lparr>labelStabilizer := resetLabelStabilizer, selectedKey := ''neutral''\<rparr>
      in if cl_debug cl then
           (let s4 = s3\<lparr>signals := None, expressionLabel := NEUTRAL\<rparr>
            in if clearBlend then s4\<lparr>blendshapeDebug := None\<rparr> else s4)
         else s3)"

text \<open>Face-presence gating: \<open>detected\<close>, \<open>withinHold\<close>, \<open>stableDetected\<close>.\<close>

definition presenceGate :: "Frame \<Rightarrow> AppState \<Rightarrow> bool \<times> AppState" where
  "presenceGate f s =
     (let detected = (case faceLandmarks f of None \<Rightarrow> False | Some faces \<Rightarrow> length faces > 0);
          s1 = (if detected then s\<lparr>lastDetectedAt := Some (now f)\<rparr> else s);
          withinHold = (case lastDetectedAt s1 of
                          None \<Rightarrow> False
                        | Some t \<Rightarrow> now f - t < FACE_HOLD_MS);
          stableDetected = (detected \<or> withinHold);
          s2 = (if \<not> detected then s1\<lparr>lastDetectedAt := None\<rparr> else s1);
          s3 = (if stableDetected \<noteq> lastFaceState s2
                then s2\<lparr>lastFaceState := stableDetected, faceDetected := stableDetected\<rparr>
                else s2)
      in (stableDetected, s3))"

definition absentFrame :: "AppState \<Rightarrow> AppState" where
  "absentFrame s =
     s\<lparr>labelStabilizer := resetLabelStabilizer, selectedKey := ''neutral'', signals := None,
       expressionLabel := NEUTRAL, rawExpressionLabel := NEUTRAL, tongueConfidence := None\<rparr>"

text \<open>
  \<^verbatim>\<open>result.faceLandmarks?.[0] ? computeSignals(result.faceLandmarks[0]) : null\<close>, kept
  together with the landmark array it was computed from.
\<close>

definition landmarkFace :: "Frame \<Rightarrow> error + (Landmark list \<times> ExpressionSignals) option" where
  "landmarkFace f =
     (case faceLandmarks f of
        None \<Rightarrow> Inr None
      | Some faces \<Rightarrow>
          (case nth_opt faces 0 of
             None \<Rightarrow> Inr None
           | Some lms \<Rightarrow>
               (case computeSignals lms of
                  Inl e \<Rightarrow> Inl e
                | Inr sg \<Rightarrow> Inr (Some (lms, sg)))))"

definition noSignals :: "Frame \<Rightarrow> AppState \<Rightarrow> AppState" where
  "noSignals f s =
     s\<lparr>labelStabilizer := resetLabelStabilizer, selectedKey := ''neutral'', signals := None,
       expressionLabel := NEUTRAL, rawExpressionLabel := NEUTRAL, tongueConfidence := None,
       signalSource := (if categories f \<noteq> None then Blendshapes else Landmarks)\<rparr>"

text \<open>\<^verbatim>\<open>smootherRef.current.update(rawSignals)\<close> on the four-key signal object.\<close>

definition signalEntries :: "ExpressionSignals \<Rightarrow> (string \<times> real) list" where
  "signalEntries sg =
     [(''faceW'', faceW sg), (''mouthOpen'', mouthOpen sg), (''smile'', smile sg),
      (''eyeOpen'', eyeOpen sg)]"

definition smoothUpdate :: "ExpressionSignals \<Rightarrow> SignalSmoother \<Rightarrow> ExpressionSignals \<times> SignalSmoother" where
  "smoothUpdate sg ss =
     (let (out, ss') = SignalSmoother_update (signalEntries sg) ss
      in (\<lparr> faceW = orElse (map_of out ''faceW'') (faceW sg),
             mouthOpen = orElse (map_of out ''mouthOpen'') (mouthOpen sg),
             smile = orElse (map_of out ''smile'') (smile sg),
             eyeOpen = orElse (map_of out ''eyeOpen'') (eyeOpen sg) \<rparr>, ss'))"

definition calibrate :: "Closure \<Rightarrow> bool \<Rightarrow> ExpressionSignals \<Rightarrow> AppState \<Rightarrow> AppState" where
  "calibrate cl useBlendshapes smoothSignals s =
     (if \<not> useBlendshapes then
        (let calib = calibration s
         in if count calib < 15 then
              (let nextCount = count calib + 1;
                   b = baseline calib;
                   n = real (count calib);
                   s1 = s\<lparr>calibration :=
                          \<lparr> count = nextCount,
                            baseline =
                              \<lparr> faceW = (faceW b * n + faceW smoothSignals) / real nextCount,
                                mouthOpen =
                                  (mouthOpen b * n + mouthOpen smoothSignals) / real nextCount,
                                smile = (smile b * n + smile smoothSignals) / real nextCount,
                                eyeOpen =
                                  (eyeOpen b * n + eyeOpen smoothSignals) / real nextCount \<rparr> \<rparr>\<rparr>
               in if nextCount = 15 then s1\<lparr>calibrated := True\<rparr> else s1)
            else s)
      else if \<not> cl_calibrated cl then s\<lparr>calibrated := True\<rparr>
      else s)"

text \<open>
  The blendshape branch.  \<open>nextLabel\<close> is the value the variable \<^verbatim>\<open>nextLabel\<close> has when the
  branch is entered; \<^verbatim>\<open>tongueProxy\<close> is computed from it before \<^verbatim>\<open>classifyExpression\<close> is
  called.  \<^verbatim>\<open>blendDebug?.tongueOut ?? 0\<close> and \<^verbatim>\<open>blendDebug?.mouthUpperUp ?? 0\<close> fall back to 0
  when the object or the property is missing.  The driver also puts \<^verbatim>\<open>tongueOut: 0.5\<close>
  into the threshold object, a field that \<^verbatim>\<open>classifyExpression\<close> does not read.
\<close>

definition tongueProxy :: "ExpressionLabel \<Rightarrow> BlendshapeDebug option \<Rightarrow> bool" where
  "tongueProxy nextLabel blendDebug =
     (let tongueScore = orElse (case blendDebug of None \<Rightarrow> None | Some d \<Rightarrow> tongueOut d) 0;
          mouthFunnel' = (case blendDebug of None \<Rightarrow> 0 | Some d \<Rightarrow> mouthFunnel d);
          mouthSmile' = (case blendDebug of None \<Rightarrow> 0 | Some d \<Rightarrow> mouthSmile d);
          jawOpen' = (case blendDebug of None \<Rightarrow> 0 | Some d \<Rightarrow> jawOpen d)
      in tongueScore \<ge> 0.2 \<or>
         (nextLabel = SCREAM \<and> jawOpen' \<ge> 0.35 \<and> mouthFunnel' \<ge> 0.01 \<and> mouthSmile' \<le> 0.45))"

definition blendThresholds :: ExpressionThresholds where
  "blendThresholds =
     \<lparr> mouthOpenScream = 0.2, smileThreshold = 0.2, mouthOpenSmileMax = 0.25,
       eyeOpenSquint = 0.5 \<rparr>"

definition blendLabel ::
  "ExpressionLabel \<Rightarrow> BlendshapeDebug option \<Rightarrow> ExpressionSignals \<Rightarrow> ExpressionLabel" where
  "blendLabel nextLabel blendDebug smoothSignals =
     (let proxy = tongueProxy nextLabel blendDebug;
          nextLabel1 = classifyExpression smoothSignals blendThresholds
      in if proxy then FREAKY else nextLabel1)"

definition blendshapeBranch ::
  "ExpressionLabel \<Rightarrow> BlendshapeDebug option \<Rightarrow> ExpressionSignals \<Rightarrow> AppState
     \<Rightarrow> ExpressionLabel \<times> AppState" where
  "blendshapeBranch nextLabel blendDebug smoothSignals s =
     (blendLabel nextLabel blendDebug smoothSignals,
      s\<lparr>toothySmile :=
          (orElse (case blendDebug of None \<Rightarrow> None | Some d \<Rightarrow> mouthUpperUp d) 0 > 0.25 \<or>
           (case blendDebug of None \<Rightarrow> 0 | Some d \<Rightarrow> jawOpen d) > 0.15)\<rparr>)"

text \<open>The landmark branch: running extremes, then the range classifier.\<close>

definition rangeMin :: "ExpressionSignals \<Rightarrow> Extremes \<Rightarrow> ExpressionSignals" where
  "rangeMin smoothSignals ex =
     (let mn0 = (case ext_min ex of None \<Rightarrow> smoothSignals | Some m \<Rightarrow> m)
      in \<lparr> faceW = min (faceW mn0) (faceW smoothSignals),
           mouthOpen = min (mouthOpen mn0) (mouthOpen smoothSignals),
           smile = min (smile mn0) (smile smoothSignals),
           eyeOpen = min (eyeOpen mn0) (eyeOpen smoothSignals) \<rparr>)"

definition rangeMax :: "ExpressionSignals \<Rightarrow> Extremes \<Rightarrow> ExpressionSignals" where
  "rangeMax smoothSignals ex =
     (let mx0 = (case ext_max ex of None \<Rightarrow> smoothSignals | Some m \<Rightarrow> m)
      in \<lparr> faceW = max (faceW mx0) (faceW smoothSignals),
           mouthOpen = max (mouthOpen mx0) (mouthOpen smoothSignals),
           smile = max (smile mx0) (smile smoothSignals),
           eyeOpen = max (eyeOpen mx0) (eyeOpen smoothSignals) \<rparr>)"

definition rangeBranch :: "ExpressionSignals \<Rightarrow> AppState \<Rightarrow> ExpressionLabel \<times> AppState" where
  "rangeBranch smoothSignals s =
     (let ex = extremes s;
          mn = rangeMin smoothSignals ex;
          mx = rangeMax smoothSignals ex;
          nextLabel = classifyFromRanges smoothSignals mn mx
      in (nextLabel,
          s\<lparr>extremes := ex\<lparr>ext_min := Some mn, ext_max := Some mx\<rparr>,
            toothySmile :=
              (mouthOpen smoothSignals > mouthOpen mn + (mouthOpen mx - mouthOpen mn) * 0.6)\<rparr>))"

text \<open>The colour detector, the tongue hold timer and the override of the label.\<close>

definition tongueBlock ::
  "Frame \<Rightarrow> (Landmark list \<times> ExpressionSignals) option \<Rightarrow> ExpressionLabel \<Rightarrow> AppState
     \<Rightarrow> ExpressionLabel \<times> AppState" where
  "tongueBlock f face nextLabel s =
     (case face of
        None \<Rightarrow> (nextLabel, s\<lparr>tongueConfidence := None\<rparr>)
      | Some (lms, landmarkSignals) \<Rightarrow>
          (let s1 = s\<lparr>tongueCanvas := True\<rparr>;
               tongueScore = getTongueConfidence (video f) lms;
               s2 = s1\<lparr>tongueConfidence := tongueScore\<rparr>;
               s3 = (if (case tongueScore of None \<Rightarrow> False | Some c \<Rightarrow> c \<ge> 0.25)
                        \<and> mouthOpen landmarkSignals > 0.1
                     then s2\<lparr>tongueHoldUntil := now f + 700\<rparr>
                     else s2)
           in (if tongueHoldUntil s3 > now f \<and> mouthOpen landmarkSignals > 0.08
               then FREAKY else nextLabel, s3)))"

text \<open>The six snapshots kept for the debug dump.\<close>

definition snapshot ::
  "bool \<Rightarrow> (ExpressionSignals \<Rightarrow> real) \<Rightarrow> ExpressionSignals \<Rightarrow> ExpressionSignals option
     \<Rightarrow> ExpressionSignals option" where
  "snapshot isMax fld smoothSignals old =
     (case old of
        None \<Rightarrow> Some smoothSignals
      | Some e \<Rightarrow>
          if (if isMax then fld smoothSignals > fld e else fld smoothSignals < fld e)
          then Some smoothSignals else Some e)"

definition snapshotExtremes :: "ExpressionSignals \<Rightarrow> Extremes \<Rightarrow> Extremes" where
  "snapshotExtremes smoothSignals ex =
     ex\<lparr>maxMouthOpen := snapshot True mouthOpen smoothSignals (maxMouthOpen ex),
        minMouthOpen := snapshot False mouthOpen smoothSignals (minMouthOpen ex),
        maxSmile := snapshot True smile smoothSignals (maxSmile ex),
        minSmile := snapshot False smile smoothSignals (minSmile ex),
        maxEyeOpen := snapshot True eyeOpen smoothSignals (maxEyeOpen ex),
        minEyeOpen := snapshot False eyeOpen smoothSignals (minEyeOpen ex)\<rparr>"

text \<open>The stabilizer, then the asset key.\<close>

definition finishFrame :: "ExpressionLabel \<Rightarrow> real \<Rightarrow> AppState \<Rightarrow> AppState" where
  "finishFrame nextLabel nowMs s =
     (let (stableLabel, st) = LabelStabilizer_update nextLabel nowMs (labelStabilizer s);
          nextKey0 = mapExpressionToMeme stableLabel;
          nextKey = (if stableLabel = SMILE \<and> toothySmile s then ''grin'' else nextKey0)
      in s\<lparr>labelStabilizer := st, selectedKey := nextKey, expressionLabel := stableLabel\<rparr>)"

text \<open>
  The raw label of a frame that has signals: \<^verbatim>\<open>nextLabel\<close> starts as NEUTRAL, goes through
  the classification branch and the tongue block, and is published as the raw label.
\<close>

definition classifyFrame ::
  "Closure \<Rightarrow> Frame \<Rightarrow> BlendshapeDebug option \<Rightarrow> (Landmark list \<times> ExpressionSignals) option
     \<Rightarrow> bool \<Rightarrow> ExpressionSignals \<Rightarrow> AppState \<Rightarrow> AppState" where
  "classifyFrame cl f blendDebug face useBlendshapes rawSignals s =
     (let (smoothSignals, sm) = smoothUpdate rawSignals (smoother s);
          s1 = s\<lparr>smoother := sm\<rparr>;
          s2 = calibrate cl useBlendshapes smoothSignals s1;
          s3 = s2\<lparr>signals := Some smoothSignals,
                  signalSource := (if useBlendshapes then Blendshapes else Landmarks),
                  blendshapeDebug := blendDebug\<rparr>;
          (nextLabel1, s4) =
            (if useBlendshapes then blendshapeBranch NEUTRAL blendDebug smoothSignals s3
             else rangeBranch smoothSignals s3);
          (nextLabel2, s5) = tongueBlock f face nextLabel1 s4;
          s6 = (if \<not> useBlendshapes
                then s5\<lparr>extremes := snapshotExtremes smoothSignals (extremes s5)\<rparr>
                else s5);
          s7 = s6\<lparr>rawExpressionLabel := nextLabel2\<rparr>
      in finishFrame nextLabel2 (now f) s7)"

definition presentFrame :: "Closure \<Rightarrow> Frame \<Rightarrow> AppState \<Rightarrow> error + AppState" where
  "presentFrame cl f s =
     (let blendSignals = computeBlendshapeSignals (categories f);
          blendDebug = getBlendshapeDebug (categories f)
      in case landmarkFace f of
           Inl e \<Rightarrow> Inl e
         | Inr face \<Rightarrow>
             (let landmarkSignals = map_option snd face;
                  blendStrength =
                    (case blendDebug of None \<Rightarrow> 0 | Some d \<Rightarrow> jawOpen d) +
                    (case blendDebug of None \<Rightarrow> 0 | Some d \<Rightarrow> mouthSmile d) +
                    (case blendDebug of None \<Rightarrow> 0 | Some d \<Rightarrow> eyeSquint d);
                  useBlendshapes = (blendSignals \<noteq> None \<and> blendStrength \<ge> 0.15);
                  rawSignals = (if useBlendshapes then blendSignals else landmarkSignals)
              in case rawSignals of
                   None \<Rightarrow> Inr (noSignals f s)
                 | Some raw \<Rightarrow> Inr (classifyFrame cl f blendDebug face useBlendshapes raw s)))"

text \<open>
  The callback.  An exception thrown by \<^verbatim>\<open>computeSignals\<close> leaves \<^verbatim>\<open>onResult\<close> and the
  timer callback that called it, so no further frame is processed.
\<close>

definition onResult :: "Closure \<Rightarrow> Frame \<Rightarrow> AppState \<Rightarrow> error + AppState" where
  "onResult cl f s0 =
     (let s = markLoopStarted cl s0
      in if \<not> videoPresent f \<or> readyState f < 2 then Inr (forceAbsent cl False s)
         else
           (let stalled = (case lastVideoTime s of
                             None \<Rightarrow> False
                           | Some vt \<Rightarrow> currentTime f = vt \<and> now f - lastVideoTimeAt s > 600);
                s1 = (case lastVideoTime s of
                        None \<Rightarrow> s\<lparr>lastVideoTime := Some (currentTime f),
                                   lastVideoTimeAt := now f\<rparr>
                      | Some vt \<Rightarrow>
                          if currentTime f = vt then s
                          else s\<lparr>lastVideoTime := Some (currentTime f),
                                 lastVideoTimeAt := now f\<rparr>)
            in if stalled then Inr (forceAbsent cl False s1)
               else if \<not> trackLive f then Inr (forceAbsent cl True s1)
               else
                 (let (stableDetected, s2) = presenceGate f s1
                  in if \<not> stableDetected then Inr (absentFrame s2)
                     else presentFrame cl f s2)))"

text \<open>The run loop \<^verbatim>\<open>startFaceLoop\<close>: one \<^verbatim>\<open>onResult\<close> per tick, until a tick throws.\<close>

fun runFrames :: "Closure \<Rightarrow> AppState \<Rightarrow> Frame list \<Rightarrow> error + AppState" where
  "runFrames cl s [] = Inr s"
| "runFrames cl s (f # fs) =
     (case onResult cl f s of Inl e \<Rightarrow> Inl e | Inr s' \<Rightarrow> runFrames cl s' fs)"


section \<open>Definitions that follow the words of the spec\<close>

text \<open>
  "Missing categories default to score 0": the score listed for a category name (the first
  one if the name is listed twice), and 0 for a name that is not listed.
\<close>

definition spec_score :: "BlendshapeCategory list \<Rightarrow> string \<Rightarrow> real" where
  "spec_score cats name =
     (case map_of (map (\<lambda>c. (categoryName c, score c)) cats) name of
        None \<Rightarrow> 0 | Some v \<Rightarrow> v)"

text \<open>
  The "normal evaluation" of the adaptive range classifier: scream above 70% of the
  mouth-open range plus the 8% margin; smile above 75% of the smile range plus the 8%
  margin, with the mouth below 60% of its range; squint below 40% of the eye-open range
  minus half the 8% margin, under the same mouth ceiling; otherwise neutral.
\<close>

definition spec_rangeEvaluation ::
  "ExpressionSignals \<Rightarrow> ExpressionSignals \<Rightarrow> ExpressionSignals \<Rightarrow> ExpressionLabel" where
  "spec_rangeEvaluation sig mn mx =
     (if mouthOpen sig > mouthOpen mn + 0.78 * (mouthOpen mx - mouthOpen mn) then SCREAM
      else if smile sig > smile mn + 0.83 * (smile mx - smile mn)
              \<and> mouthOpen sig < mouthOpen mn + 0.6 * (mouthOpen mx - mouthOpen mn) then SMILE
      else if eyeOpen sig < eyeOpen mn + 0.36 * (eyeOpen mx - eyeOpen mn)
              \<and> mouthOpen sig < mouthOpen mn + 0.6 * (mouthOpen mx - mouthOpen mn) then SQUINT
      else NEUTRAL)"

text \<open>
  "The fraction of pixels that are red-dominant (R>50 and R exceeds both G and B by >10,
  and R \<open>-\<close> avg(G,B) > 8)", over a list of RGBA pixels, and the byte array that
  \<^verbatim>\<open>getImageData\<close> gives for such a list.
\<close>

definition spec_redPixel :: "nat \<times> nat \<times> nat \<times> nat \<Rightarrow> bool" where
  "spec_redPixel p =
     (case p of (r, g, b, a) \<Rightarrow>
        real r > 50 \<and> real r - real g > 10 \<and> real r - real b > 10
        \<and> real r - (real g + real b) / 2 > 8)"

definition spec_redFraction :: "(nat \<times> nat \<times> nat \<times> nat) list \<Rightarrow> real" where
  "spec_redFraction px = real (length (filter spec_redPixel px)) / real (length px)"

definition rgbaBytes :: "(nat \<times> nat \<times> nat \<times> nat) list \<Rightarrow> nat list" where
  "rgbaBytes px = concat (map (\<lambda>(r, g, b, a). [r, g, b, a]) px)"

text \<open>
  A frame of 1000 by 1000 pixels whose crop holds one red and one grey pixel, and a face
  whose mouth corners are at x = 0.4 and 0.6, whose lips are at y = 0.45 and 0.55, and
  whose nose tip and chin are at y = 0.4 and 0.9 (the other landmarks at the origin).
\<close>

definition fixture_pixels :: "(nat \<times> nat \<times> nat \<times> nat) list" where
  "fixture_pixels = [(200, 10, 10, 255), (10, 10, 10, 255)]"

definition fixture_video :: VideoFrame where
  "fixture_video =
     \<lparr> videoWidth = 1000, videoHeight = 1000, canvasCtx = True,
       frameData = (\<lambda>sx sy w h. rgbaBytes fixture_pixels) \<rparr>"

definition fixture_mouth :: "Landmark list" where
  "fixture_mouth =
     (replicate 478 (Landmark 0 0))
       [61 := Landmark 0.4 0.5, 291 := Landmark 0.6 0.5,
        13 := Landmark 0.5 0.45, 14 := Landmark 0.5 0.55,
        1 := Landmark 0.5 0.4, 152 := Landmark 0.5 0.9]"

section \<open>Notions used to state the properties of the driver\<close>

text \<open>
  A frame passes the checks when \<^verbatim>\<open>onResult\<close> takes none of its three early returns; a
  face is detected when the result lists at least one face.  \<open>afterChecks\<close> is the state
  with which the presence gate is entered, \<open>useBlendshapesOf\<close> and \<open>rawSignalsOf\<close> are
  the source selection, \<open>holdAfter\<close> is the tongue hold timer after the tongue block,
  \<open>colourFires\<close> says that the colour detector arms it, \<open>blendFires\<close> says that the
  blendshape detector fires (the frame is blendshape-sourced and \<^verbatim>\<open>tongueProxy\<close> is true,
  computed as the driver does with \<^verbatim>\<open>nextLabel\<close> still NEUTRAL), and \<open>classifiedLabel\<close> is
  the label that leaves the classification branch.
\<close>

definition passesChecks :: "Frame \<Rightarrow> AppState \<Rightarrow> bool" where
  "passesChecks f s \<longleftrightarrow>
     videoPresent f \<and> 2 \<le> readyState f
     \<and> \<not> (case lastVideoTime s of
              None \<Rightarrow> False
            | Some vt \<Rightarrow> currentTime f = vt \<and> now f - lastVideoTimeAt s > 600)
     \<and> trackLive f"

definition frameDetected :: "Frame \<Rightarrow> bool" where
  "frameDetected f = (case faceLandmarks f of None \<Rightarrow> False | Some faces \<Rightarrow> length faces > 0)"

definition afterChecks :: "Closure \<Rightarrow> Frame \<Rightarrow> AppState \<Rightarrow> AppState" where
  "afterChecks cl f s0 =
     (let s = markLoopStarted cl s0
      in case lastVideoTime s of
           None \<Rightarrow> s\<lparr>lastVideoTime := Some (currentTime f), lastVideoTimeAt := now f\<rparr>
         | Some vt \<Rightarrow>
             if currentTime f = vt then s
             else s\<lparr>lastVideoTime := Some (currentTime f), lastVideoTimeAt := now f\<rparr>)"

definition useBlendshapesOf :: "Frame \<Rightarrow> bool" where
  "useBlendshapesOf f \<longleftrightarrow>
     computeBlendshapeSignals (categories f) \<noteq> None
     \<and> (case getBlendshapeDebug (categories f) of None \<Rightarrow> 0 | Some d \<Rightarrow> jawOpen d) +
       (case getBlendshapeDebug (categories f) of None \<Rightarrow> 0 | Some d \<Rightarrow> mouthSmile d) +
       (case getBlendshapeDebug (categories f) of None \<Rightarrow> 0 | Some d \<Rightarrow> eyeSquint d) \<ge> 0.15"

definition rawSignalsOf ::
  "Frame \<Rightarrow> (Landmark list \<times> ExpressionSignals) option \<Rightarrow> ExpressionSignals option" where
  "rawSignalsOf f face =
     (if useBlendshapesOf f then computeBlendshapeSignals (categories f) else map_option snd face)"

definition holdAfter :: "Frame \<Rightarrow> (Landmark list \<times> ExpressionSignals) option \<Rightarrow> real \<Rightarrow> real" where
  "holdAfter f face h =
     (case face of
        None \<Rightarrow> h
      | Some (lms, ls) \<Rightarrow>
          if (case getTongueConfidence (video f) lms of None \<Rightarrow> False | Some c \<Rightarrow> c \<ge> 0.25)
             \<and> mouthOpen ls > 0.1
          then now f + 700 else h)"

definition colourFires :: "Frame \<Rightarrow> bool" where
  "colourFires f =
     (case landmarkFace f of
        Inr (Some (lms, ls)) \<Rightarrow>
          (case getTongueConfidence (video f) lms of None \<Rightarrow> False | Some c \<Rightarrow> c \<ge> 0.25)
          \<and> mouthOpen ls > 0.1
      | _ \<Rightarrow> False)"

definition blendFires :: "Frame \<Rightarrow> bool" where
  "blendFires f \<longleftrightarrow>
     useBlendshapesOf f \<and> tongueProxy NEUTRAL (getBlendshapeDebug (categories f))"

definition classifiedLabel ::
  "BlendshapeDebug option \<Rightarrow> bool \<Rightarrow> ExpressionSignals \<Rightarrow> AppState \<Rightarrow> ExpressionLabel" where
  "classifiedLabel blendDebug useBlendshapes rawSignals s =
     (if useBlendshapes
      then blendLabel NEUTRAL blendDebug (fst (smoothUpdate rawSignals (smoother s)))
      else classifyFromRanges (fst (smoothUpdate rawSignals (smoother s)))
             (rangeMin (fst (smoothUpdate rawSignals (smoother s))) (extremes s))
             (rangeMax (fst (smoothUpdate rawSignals (smoother s))) (extremes s)))"

text \<open>Frames for concrete runs: healthy video and track, time in milliseconds.\<close>

definition fixture_closure :: Closure where
  "fixture_closure = \<lparr> cl_status = ''Loading'', cl_debug = False, cl_calibrated = False \<rparr>"

definition fixture_frame ::
  "real \<Rightarrow> VideoFrame \<Rightarrow> Landmark list list option \<Rightarrow> BlendshapeCategory list option
     \<Rightarrow> Frame" where
  "fixture_frame t v faces cats =
     \<lparr> videoPresent = True, readyState = 4, currentTime = t / 1000, trackLive = True, now = t,
       video = v, faceLandmarks = faces, categories = cats \<rparr>"

definition fixture_no_canvas :: VideoFrame where
  "fixture_no_canvas = fixture_video\<lparr>canvasCtx := False\<rparr>"

section \<open>Properties of the LabelStabilizer\<close>

lemma LabelStabilizer_updates_snoc:
  "LabelStabilizer_updates s (us @ [(l, t)]) =
     snd (LabelStabilizer_update l t (LabelStabilizer_updates s us))"
  by (induction s us rule: LabelStabilizer_updates.induct) simp_all

lemma LabelStabilizer_update_params:
  "stableFrames (snd (LabelStabilizer_update l t s)) = stableFrames s"
  "cooldownMs (snd (LabelStabilizer_update l t s)) = cooldownMs s"
  by (simp_all add: LabelStabilizer_update_def Let_def)

lemma LabelStabilizer_updates_params:
  "stableFrames (LabelStabilizer_updates s us) = stableFrames s"
  "cooldownMs (LabelStabilizer_updates s us) = cooldownMs s"
  by (induction s us rule: LabelStabilizer_updates.induct)
     (simp_all add: LabelStabilizer_update_params)

lemma LabelStabilizer_commit_step:
  assumes "current (snd (LabelStabilizer_update l t s)) \<noteq> current s"
  shows "pending s = Some l \<and> l \<noteq> current s
       \<and> stableFrames s \<le> real (pendingFrames s + 1)
       \<and> cooldownMs s \<le> t - lastSwitchAt s
       \<and> current (snd (LabelStabilizer_update l t s)) = l
       \<and> fst (LabelStabilizer_update l t s) = l
       \<and> lastSwitchAt (snd (LabelStabilizer_update l t s)) = t"
  using assms by (auto simp: LabelStabilizer_update_def Let_def split: if_splits)

lemma LabelStabilizer_nocommit_step:
  assumes "current (snd (LabelStabilizer_update l t s)) = current s"
  shows "lastSwitchAt (snd (LabelStabilizer_update l t s)) = lastSwitchAt s"
  using assms by (auto simp: LabelStabilizer_update_def Let_def split: if_splits)

lemma pending_counts_step:
  assumes "pending_counts s us"
  shows "pending_counts (snd (LabelStabilizer_update l t s)) (us @ [(l, t)])"
  using assms
  by (auto simp: pending_counts_def LabelStabilizer_update_def Let_def Suc_diff_le
           split: option.splits if_splits)

lemma pending_counts_updates:
  assumes "pending s0 = None" "pendingFrames s0 = 0"
  shows "pending_counts (LabelStabilizer_updates s0 us) us"
proof (induction us rule: rev_induct)
  case Nil
  show ?case using assms by (simp add: pending_counts_def)
next
  case (snoc u us)
  obtain l t where u: "u = (l, t)" by (cases u)
  show ?case
    unfolding u LabelStabilizer_updates_snoc by (rule pending_counts_step [OF snoc])
qed

lemma lastSwitchAt_updates:
  "lastSwitchAt (LabelStabilizer_updates s us) = last (lastSwitchAt s # switchTimes s us)"
proof (induction s us rule: LabelStabilizer_updates.induct)
  case (1 s)
  show ?case by simp
next
  case (2 s l t us)
  show ?case
  proof (cases "current (snd (LabelStabilizer_update l t s)) = current s")
    case True
    then show ?thesis
      using 2 LabelStabilizer_nocommit_step [OF True] by simp
  next
    case False
    then show ?thesis
      using 2 LabelStabilizer_commit_step [OF False] by simp
  qed
qed

lemma length_alternating: "length (alternating a c n) = n"
  by (induction a c n rule: alternating.induct) simp_all

lemma distinct_adj_alternating: "a \<noteq> c \<Longrightarrow> distinct_adj (alternating a c n)"
proof (induction a c n rule: alternating.induct)
  case (1 a c)
  show ?case by simp
next
  case (2 a c n)
  then show ?case by (cases n) auto
qed

lemma no_commit_distinct_adj:
  assumes "distinct_adj (map fst us)"
    and "us \<noteq> [] \<Longrightarrow> pending s \<noteq> Some (fst (hd us))"
  shows "current (LabelStabilizer_updates s us) = current s
       \<and> (\<forall>r \<in> set (LabelStabilizer_returns s us). r = current s)"
  using assms
proof (induction s us rule: LabelStabilizer_updates.induct)
  case (1 s)
  show ?case by simp
next
  case (2 s l t us)
  let ?s' = "snd (LabelStabilizer_update l t s)"
  from "2.prems" have pl: "pending s \<noteq> Some l" by simp
  then have step: "current ?s' = current s" "fst (LabelStabilizer_update l t s) = current s"
    "pending ?s' = None \<or> pending ?s' = Some l"
    by (auto simp: LabelStabilizer_update_def)
  have adj: "distinct_adj (map fst us)"
    using "2.prems"(1) by (cases us) auto
  have hd: "us \<noteq> [] \<Longrightarrow> pending ?s' \<noteq> Some (fst (hd us))"
    using "2.prems"(1) step(3) by (cases us) auto
  from "2.IH" [OF adj hd] step show ?case by simp
qed

text \<open>
  Claim C4.  From a freshly constructed stabilizer and after any sequence \<open>us\<close> of updates,
  an update \<open>(l, t)\<close> changes \<open>current\<close> only if \<open>l\<close> is the pending candidate, the last
  \<open>n\<close> updates (this one included) all carried \<open>l\<close> for some \<open>n\<close> that is at least
  \<open>stableFrames\<close>, and \<open>t\<close> lies at least \<open>cooldownMs\<close> after the last switch; the new
  \<open>current\<close> is then \<open>l\<close>.  With \<open>stableFrames = 5\<close> and \<open>cooldownMs = 600\<close>, five updates
  with a label \<open>A\<close> on a stabilizer started at \<open>B\<close> return \<open>B, B, B, B, A\<close> when the fifth
  timestamp satisfies the cooldown.  A stream alternating between two different labels
  never commits a switch, whatever the timestamps and the parameters.
\<close>

theorem LabelStabilizer_commit_invariant:
  fixes init A B C l :: 'l and osf ocd :: "real option" and us :: "('l \<times> real) list"
    and t t1 t2 t3 t4 t5 :: real
  defines "s0 \<equiv> LabelStabilizer_new init osf ocd"
  defines "s \<equiv> LabelStabilizer_updates s0 us"
  defines "hist \<equiv> us @ [(l, t)]"
  shows
    "(current (snd (LabelStabilizer_update l t s)) \<noteq> current s \<longrightarrow>
        current (snd (LabelStabilizer_update l t s)) = l \<and> pending s = Some l \<and>
        (\<exists>n. 2 \<le> n \<and> stableFrames s0 \<le> real n \<and> n \<le> length hist \<and>
             (\<forall>u \<in> set (drop (length hist - n) hist). fst u = l)) \<and>
        cooldownMs s0 \<le> t - lastSwitchTime s0 us)
   \<and> (A \<noteq> B \<and> 600 \<le> t5 \<longrightarrow>
        LabelStabilizer_returns (LabelStabilizer_new B (Some 5) (Some 600))
          [(A, t1), (A, t2), (A, t3), (A, t4), (A, t5)] = [B, B, B, B, A])
   \<and> (A \<noteq> C \<longrightarrow>
        (\<forall>ts. current (LabelStabilizer_updates (LabelStabilizer_new B osf ocd)
                        (zip (alternating A C (length ts)) ts)) = B
            \<and> (\<forall>r \<in> set (LabelStabilizer_returns (LabelStabilizer_new B osf ocd)
                              (zip (alternating A C (length ts)) ts)). r = B)))"
proof (intro conjI impI allI)
  assume ch: "current (snd (LabelStabilizer_update l t s)) \<noteq> current s"
  note cs = LabelStabilizer_commit_step [OF ch]
  show "current (snd (LabelStabilizer_update l t s)) = l" using cs by simp
  show p: "pending s = Some l" using cs by simp
  have fresh: "pending s0 = None" "pendingFrames s0 = 0" "lastSwitchAt s0 = 0"
    by (simp_all add: s0_def LabelStabilizer_new_def)
  have pc: "pending_counts s us"
    unfolding s_def by (rule pending_counts_updates [OF fresh(1,2)])
  from pc p have n: "1 \<le> pendingFrames s" "pendingFrames s \<le> length us"
    "\<forall>u \<in> set (drop (length us - pendingFrames s) us). fst u = l"
    by (simp_all add: pending_counts_def)
  have sf: "stableFrames s = stableFrames s0"
    unfolding s_def by (rule LabelStabilizer_updates_params)
  have "2 \<le> pendingFrames s + 1" using n(1) by simp
  moreover have "stableFrames s0 \<le> real (pendingFrames s + 1)" using cs sf by simp
  moreover have "pendingFrames s + 1 \<le> length hist" using n(2) by (simp add: hist_def)
  moreover have "\<forall>u \<in> set (drop (length hist - (pendingFrames s + 1)) hist). fst u = l"
    using n(2,3) by (simp add: hist_def)
  ultimately show "\<exists>n. 2 \<le> n \<and> stableFrames s0 \<le> real n \<and> n \<le> length hist \<and>
             (\<forall>u \<in> set (drop (length hist - n) hist). fst u = l)"
    by blast
  have "lastSwitchAt s = lastSwitchTime s0 us"
    unfolding s_def lastSwitchTime_def lastSwitchAt_updates fresh(3) ..
  moreover have "cooldownMs s = cooldownMs s0"
    unfolding s_def by (rule LabelStabilizer_updates_params)
  ultimately show "cooldownMs s0 \<le> t - lastSwitchTime s0 us" using cs by simp
next
  assume "A \<noteq> B \<and> 600 \<le> t5"
  then show "LabelStabilizer_returns (LabelStabilizer_new B (Some 5) (Some 600))
          [(A, t1), (A, t2), (A, t3), (A, t4), (A, t5)] = [B, B, B, B, A]"
    by (simp add: LabelStabilizer_new_def LabelStabilizer_update_def)
next
  fix ts :: "real list"
  assume ac: "A \<noteq> C"
  let ?us = "zip (alternating A C (length ts)) ts"
  have m: "map fst ?us = alternating A C (length ts)"
    by (simp add: length_alternating)
  have adj: "distinct_adj (map fst ?us)"
    unfolding m by (rule distinct_adj_alternating [OF ac])
  have pn: "?us \<noteq> [] \<Longrightarrow> pending (LabelStabilizer_new B osf ocd) \<noteq> Some (fst (hd ?us))"
    by (simp add: LabelStabilizer_new_def)
  have cur: "current (LabelStabilizer_new B osf ocd) = B"
    by (simp add: LabelStabilizer_new_def)
  from no_commit_distinct_adj [OF adj pn]
  show "current (LabelStabilizer_updates (LabelStabilizer_new B osf ocd) ?us) = B"
    and "\<forall>r \<in> set (LabelStabilizer_returns (LabelStabilizer_new B osf ocd) ?us). r = B"
    unfolding cur by simp_all
qed


text \<open>The hypotheses of C4 are met by concrete update sequences.\<close>

theorem LabelStabilizer_commit_invariant_witness:
  "current (snd (LabelStabilizer_update SMILE 700
       (LabelStabilizer_updates (LabelStabilizer_new NEUTRAL (Some 5) (Some 600))
          [(SMILE, 100), (SMILE, 200), (SMILE, 300), (SMILE, 400)])))
     \<noteq> current (LabelStabilizer_updates (LabelStabilizer_new NEUTRAL (Some 5) (Some 600))
          [(SMILE, 100), (SMILE, 200), (SMILE, 300), (SMILE, 400)])
   \<and> cooldownMs (LabelStabilizer_new NEUTRAL (Some 5) (Some 600))
       \<le> 700 - lastSwitchTime (LabelStabilizer_new NEUTRAL (Some 5) (Some 600))
            [(SMILE, 100), (SMILE, 200), (SMILE, 300), (SMILE, 400)]
   \<and> SMILE \<noteq> NEUTRAL \<and> (600::real) \<le> 1000
   \<and> LabelStabilizer_returns (LabelStabilizer_new NEUTRAL (Some 5) (Some 600))
          [(SMILE, 600), (SMILE, 700), (SMILE, 800), (SMILE, 900), (SMILE, 1000)]
        = [NEUTRAL, NEUTRAL, NEUTRAL, NEUTRAL, SMILE]
   \<and> SMILE \<noteq> SCREAM
   \<and> current (LabelStabilizer_updates (LabelStabilizer_new NEUTRAL (Some 5) (Some 600))
                (zip (alternating SMILE SCREAM (length [600, 700, 800, 900, 1000, 1100 :: real]))
                     [600, 700, 800, 900, 1000, 1100])) = NEUTRAL"
  using LabelStabilizer_commit_invariant
    [of SMILE 700 NEUTRAL "Some 5" "Some 600"
        "[(SMILE, 100), (SMILE, 200), (SMILE, 300), (SMILE, 400)]"
        SMILE NEUTRAL 1000 600 700 800 900 SCREAM]
  by (simp add: LabelStabilizer_new_def LabelStabilizer_update_def)

text \<open>
  Claim C5, as the spec states it, at the initial label NEUTRAL: a stabilizer constructed
  without the two optional parameters would have \<open>stableFrames = 5\<close> and
  \<open>cooldownMs = 600\<close>.  The parameter list gives 4 and 500.
\<close>

theorem LabelStabilizer_default_counterexample:
  "\<not> (stableFrames (LabelStabilizer_new NEUTRAL None None) = 5
      \<and> cooldownMs (LabelStabilizer_new NEUTRAL None None) = 600)"
  by (simp add: LabelStabilizer_new_def)

text \<open>
  Claim C5, amended: a stabilizer constructed without explicit \<open>stableFrames\<close> and
  \<open>cooldownMs\<close> has \<open>stableFrames = 4\<close> and \<open>cooldownMs = 500\<close>, each default applying on
  its own when only the other parameter is given; the values 5 and 600 are the ones the
  driver passes explicitly, at start and at every reset.
\<close>

theorem LabelStabilizer_default_construction:
  "stableFrames (LabelStabilizer_new initial None cd) = 4
   \<and> cooldownMs (LabelStabilizer_new initial sf None) = 500
   \<and> stableFrames (LabelStabilizer_new initial (Some n) cd) = n
   \<and> cooldownMs (LabelStabilizer_new initial sf (Some c)) = c
   \<and> stableFrames resetLabelStabilizer = 5 \<and> cooldownMs resetLabelStabilizer = 600
   \<and> labelStabilizer App_init = resetLabelStabilizer"
  by (simp add: LabelStabilizer_new_def resetLabelStabilizer_def App_init_def)

section \<open>Properties of the expression module\<close>

lemma getScore_map_of:
  "getScore cats name = map_of (map (\<lambda>c. (categoryName c, score c)) cats) name"
  by (induction cats) (simp_all add: getScore_def)

lemma orElse_getScore: "orElse (getScore cats name) 0 = spec_score cats name"
  by (simp add: getScore_map_of spec_score_def orElse_def)

text \<open>
  Claim C8.  \<open>computeBlendshapeSignals\<close> returns nothing exactly when the category list is
  absent or empty.  For a non-empty list, with the score of an unlisted category taken as
  0, it returns \<open>mouthOpen = min(1, jawOpen + 0.5 \<cdot> mouthFunnel)\<close>, \<open>smile\<close> the mean of the
  two smile scores capped at 1, \<open>eyeOpen\<close> one minus the mean of the two squint scores,
  floored at 0, and the face width reference 1.
\<close>

theorem computeBlendshapeSignals_derivation:
  "(computeBlendshapeSignals ocats = None \<longleftrightarrow> ocats = None \<or> ocats = Some [])
   \<and> (cats \<noteq> [] \<longrightarrow>
        computeBlendshapeSignals (Some cats) =
          Some \<lparr> faceW = 1,
                 mouthOpen = min 1 (spec_score cats ''jawOpen'' + 0.5 * spec_score cats ''mouthFunnel''),
                 smile = min 1 ((spec_score cats ''mouthSmileLeft''
                                 + spec_score cats ''mouthSmileRight'') / 2),
                 eyeOpen = max 0 (1 - (spec_score cats ''eyeSquintLeft''
                                        + spec_score cats ''eyeSquintRight'') / 2) \<rparr>)"
  by (simp add: computeBlendshapeSignals_def orElse_getScore Let_def split: option.splits)

text \<open>C8 at a list of three categories, and at the empty list.\<close>

theorem computeBlendshapeSignals_derivation_witness:
  "[\<lparr>categoryName = ''jawOpen'', score = 0.4\<rparr>, \<lparr>categoryName = ''mouthFunnel'', score = 0.2\<rparr>,
    \<lparr>categoryName = ''eyeSquintLeft'', score = 0.5\<rparr>] \<noteq> []
   \<and> computeBlendshapeSignals
        (Some [\<lparr>categoryName = ''jawOpen'', score = 0.4\<rparr>,
               \<lparr>categoryName = ''mouthFunnel'', score = 0.2\<rparr>,
               \<lparr>categoryName = ''eyeSquintLeft'', score = 0.5\<rparr>])
       = Some \<lparr> faceW = 1, mouthOpen = 0.5, smile = 0, eyeOpen = 0.75 \<rparr>
   \<and> computeBlendshapeSignals (Some []) = None"
  using computeBlendshapeSignals_derivation
    [of "Some []" "[\<lparr>categoryName = ''jawOpen'', score = 0.4\<rparr>,
               \<lparr>categoryName = ''mouthFunnel'', score = 0.2\<rparr>,
               \<lparr>categoryName = ''eyeSquintLeft'', score = 0.5\<rparr>]"]
  by (simp add: spec_score_def)

text \<open>
  Claim C6, at the input the claim describes: the default thresholds with
  \<open>eyeOpenSquint\<close> negated and an eye-openness above it.  The squint test does not fire
  there (the result is NEUTRAL), and it fires for an eye-openness below the negative
  threshold: the comparison keeps its direction.  The other three thresholds do flip.
\<close>

theorem classifyExpression_squint_sign_ignored:
  "classifyExpression \<lparr>faceW = 1, mouthOpen = 0.1, smile = 0.1, eyeOpen = 0.5\<rparr>
     \<lparr>mouthOpenScream = 0.28, smileThreshold = 0.62, mouthOpenSmileMax = 0.18,
      eyeOpenSquint = - 0.12\<rparr> = NEUTRAL
   \<and> classifyExpression \<lparr>faceW = 1, mouthOpen = 0.1, smile = 0.1, eyeOpen = - 0.5\<rparr>
     \<lparr>mouthOpenScream = 0.28, smileThreshold = 0.62, mouthOpenSmileMax = 0.18,
      eyeOpenSquint = - 0.12\<rparr> = SQUINT
   \<and> classifyExpression \<lparr>faceW = 1, mouthOpen = - 0.5, smile = 0.1, eyeOpen = 0.5\<rparr>
     \<lparr>mouthOpenScream = - 0.28, smileThreshold = 0.62, mouthOpenSmileMax = 0.18,
      eyeOpenSquint = 0.12\<rparr> = SCREAM
   \<and> classifyExpression \<lparr>faceW = 1, mouthOpen = 0.1, smile = - 0.7, eyeOpen = 0.5\<rparr>
     \<lparr>mouthOpenScream = 0.28, smileThreshold = - 0.62, mouthOpenSmileMax = 0.18,
      eyeOpenSquint = 0.12\<rparr> = SMILE
   \<and> classifyExpression \<lparr>faceW = 1, mouthOpen = 0.1, smile = 0.7, eyeOpen = 0.5\<rparr>
     \<lparr>mouthOpenScream = 0.28, smileThreshold = 0.62, mouthOpenSmileMax = - 0.18,
      eyeOpenSquint = 0.12\<rparr> = SMILE"
  by (simp add: classifyExpression_def)

text \<open>Whatever the sign of the threshold, a SQUINT result means eye-openness below it.\<close>

lemma classifyExpression_squint_test:
  "classifyExpression sig th = SQUINT \<Longrightarrow> eyeOpen sig < eyeOpenSquint th"
  by (simp add: classifyExpression_def Let_def split: if_splits)

section \<open>Properties of the range classifier\<close>

text \<open>
  Claim C9.  When the three observed ranges (mouthOpen, smile, eyeOpen) are all below 0.05
  the range classifier returns NEUTRAL whatever the signals.  When a range reaches 0.05
  (in particular when all three do) the normal evaluation applies, in the order scream,
  smile, squint, else neutral; with every minimum 0 and every maximum 1 its thresholds
  are 0.78, 0.83 (mouth below 0.6) and 0.36 (mouth below 0.6).
\<close>

theorem classifyFromRanges_neutral_gate:
  "(mouthOpen mx - mouthOpen mn < 0.05 \<and> smile mx - smile mn < 0.05
      \<and> eyeOpen mx - eyeOpen mn < 0.05 \<longrightarrow> classifyFromRanges sig mn mx = NEUTRAL)
   \<and> (mouthOpen mx - mouthOpen mn \<ge> 0.05 \<or> smile mx - smile mn \<ge> 0.05
      \<or> eyeOpen mx - eyeOpen mn \<ge> 0.05 \<longrightarrow>
        classifyFromRanges sig mn mx = spec_rangeEvaluation sig mn mx)
   \<and> (mouthOpen mn = 0 \<and> smile mn = 0 \<and> eyeOpen mn = 0
      \<and> mouthOpen mx = 1 \<and> smile mx = 1 \<and> eyeOpen mx = 1 \<longrightarrow>
        classifyFromRanges sig mn mx =
          (if mouthOpen sig > 0.78 then SCREAM
           else if smile sig > 0.83 \<and> mouthOpen sig < 0.6 then SMILE
           else if eyeOpen sig < 0.36 \<and> mouthOpen sig < 0.6 then SQUINT
           else NEUTRAL))"
proof (intro conjI impI)
  assume "mouthOpen mx - mouthOpen mn < 0.05 \<and> smile mx - smile mn < 0.05
      \<and> eyeOpen mx - eyeOpen mn < 0.05"
  then show "classifyFromRanges sig mn mx = NEUTRAL"
    by (simp add: classifyFromRanges_def)
next
  assume "mouthOpen mx - mouthOpen mn \<ge> 0.05 \<or> smile mx - smile mn \<ge> 0.05
      \<or> eyeOpen mx - eyeOpen mn \<ge> 0.05"
  then have open_gate: "(mouthOpen mx - mouthOpen mn < 0.05 \<and> smile mx - smile mn < 0.05
      \<and> eyeOpen mx - eyeOpen mn < 0.05) = False"
    by (auto simp: not_less)
  have a: "mouthOpen mn + (mouthOpen mx - mouthOpen mn) * 0.7 + (mouthOpen mx - mouthOpen mn) * 0.08
         = mouthOpen mn + 0.78 * (mouthOpen mx - mouthOpen mn)"
    by (simp add: field_simps)
  have b: "smile mn + (smile mx - smile mn) * 0.75 + (smile mx - smile mn) * 0.08
         = smile mn + 0.83 * (smile mx - smile mn)"
    by (simp add: field_simps)
  have c: "eyeOpen mn + (eyeOpen mx - eyeOpen mn) * 0.4 - (eyeOpen mx - eyeOpen mn) * 0.08 * 0.5
         = eyeOpen mn + 0.36 * (eyeOpen mx - eyeOpen mn)"
    by (simp add: field_simps)
  have d: "mouthOpen mn + (mouthOpen mx - mouthOpen mn) * 0.6
         = mouthOpen mn + 0.6 * (mouthOpen mx - mouthOpen mn)"
    by simp
  show "classifyFromRanges sig mn mx = spec_rangeEvaluation sig mn mx"
    unfolding classifyFromRanges_def spec_rangeEvaluation_def Let_def open_gate if_False a b c d
    by (rule refl)
next
  assume "mouthOpen mn = 0 \<and> smile mn = 0 \<and> eyeOpen mn = 0
      \<and> mouthOpen mx = 1 \<and> smile mx = 1 \<and> eyeOpen mx = 1"
  then show "classifyFromRanges sig mn mx =
          (if mouthOpen sig > 0.78 then SCREAM
           else if smile sig > 0.83 \<and> mouthOpen sig < 0.6 then SMILE
           else if eyeOpen sig < 0.36 \<and> mouthOpen sig < 0.6 then SQUINT
           else NEUTRAL)"
    by (simp add: classifyFromRanges_def)
qed

text \<open>C9 with a narrow range, and with the ranges from 0 to 1 for each of the four labels.\<close>

theorem classifyFromRanges_neutral_gate_witness:
  "(mouthOpen \<lparr>faceW = 1, mouthOpen = 0.12, smile = 0.5, eyeOpen = 0.3\<rparr>
      - mouthOpen \<lparr>faceW = 1, mouthOpen = 0.1, smile = 0.5, eyeOpen = 0.3\<rparr> < 0.05)
   \<and> classifyFromRanges \<lparr>faceW = 1, mouthOpen = 0.9, smile = 0.9, eyeOpen = 0\<rparr>
         \<lparr>faceW = 1, mouthOpen = 0.1, smile = 0.5, eyeOpen = 0.3\<rparr>
         \<lparr>faceW = 1, mouthOpen = 0.12, smile = 0.5, eyeOpen = 0.3\<rparr> = NEUTRAL
   \<and> (mouthOpen \<lparr>faceW = 1, mouthOpen = 1, smile = 1, eyeOpen = 1\<rparr>
      - mouthOpen \<lparr>faceW = 1, mouthOpen = 0, smile = 0, eyeOpen = 0\<rparr> \<ge> 0.05)
   \<and> classifyFromRanges \<lparr>faceW = 1, mouthOpen = 0.9, smile = 0.9, eyeOpen = 0\<rparr>
         \<lparr>faceW = 1, mouthOpen = 0, smile = 0, eyeOpen = 0\<rparr>
         \<lparr>faceW = 1, mouthOpen = 1, smile = 1, eyeOpen = 1\<rparr> = SCREAM
   \<and> classifyFromRanges \<lparr>faceW = 1, mouthOpen = 0.5, smile = 0.9, eyeOpen = 0\<rparr>
         \<lparr>faceW = 1, mouthOpen = 0, smile = 0, eyeOpen = 0\<rparr>
         \<lparr>faceW = 1, mouthOpen = 1, smile = 1, eyeOpen = 1\<rparr> = SMILE
   \<and> classifyFromRanges \<lparr>faceW = 1, mouthOpen = 0.5, smile = 0.5, eyeOpen = 0.2\<rparr>
         \<lparr>faceW = 1, mouthOpen = 0, smile = 0, eyeOpen = 0\<rparr>
         \<lparr>faceW = 1, mouthOpen = 1, smile = 1, eyeOpen = 1\<rparr> = SQUINT
   \<and> classifyFromRanges \<lparr>faceW = 1, mouthOpen = 0.7, smile = 0.9, eyeOpen = 0.2\<rparr>
         \<lparr>faceW = 1, mouthOpen = 0, smile = 0, eyeOpen = 0\<rparr>
         \<lparr>faceW = 1, mouthOpen = 1, smile = 1, eyeOpen = 1\<rparr> = NEUTRAL"
  using
    classifyFromRanges_neutral_gate
      [where sig = "\<lparr>faceW = 1, mouthOpen = 0.9, smile = 0.9, eyeOpen = 0\<rparr>"
         and mn = "\<lparr>faceW = 1, mouthOpen = 0.1, smile = 0.5, eyeOpen = 0.3\<rparr>"
         and mx = "\<lparr>faceW = 1, mouthOpen = 0.12, smile = 0.5, eyeOpen = 0.3\<rparr>"]
    classifyFromRanges_neutral_gate
      [where sig = "\<lparr>faceW = 1, mouthOpen = 0.9, smile = 0.9, eyeOpen = 0\<rparr>"
         and mn = "\<lparr>faceW = 1, mouthOpen = 0, smile = 0, eyeOpen = 0\<rparr>"
         and mx = "\<lparr>faceW = 1, mouthOpen = 1, smile = 1, eyeOpen = 1\<rparr>"]
    classifyFromRanges_neutral_gate
      [where sig = "\<lparr>faceW = 1, mouthOpen = 0.5, smile = 0.9, eyeOpen = 0\<rparr>"
         and mn = "\<lparr>faceW = 1, mouthOpen = 0, smile = 0, eyeOpen = 0\<rparr>"
         and mx = "\<lparr>faceW = 1, mouthOpen = 1, smile = 1, eyeOpen = 1\<rparr>"]
    classifyFromRanges_neutral_gate
      [where sig = "\<lparr>faceW = 1, mouthOpen = 0.5, smile = 0.5, eyeOpen = 0.2\<rparr>"
         and mn = "\<lparr>faceW = 1, mouthOpen = 0, smile = 0, eyeOpen = 0\<rparr>"
         and mx = "\<lparr>faceW = 1, mouthOpen = 1, smile = 1, eyeOpen = 1\<rparr>"]
    classifyFromRanges_neutral_gate
      [where sig = "\<lparr>faceW = 1, mouthOpen = 0.7, smile = 0.9, eyeOpen = 0.2\<rparr>"
         and mn = "\<lparr>faceW = 1, mouthOpen = 0, smile = 0, eyeOpen = 0\<rparr>"
         and mx = "\<lparr>faceW = 1, mouthOpen = 1, smile = 1, eyeOpen = 1\<rparr>"]
  by (simp add: spec_rangeEvaluation_def)

section \<open>Properties of the asset registry\<close>

text \<open>
  Claim C10, at the keys \<^verbatim>\<open>"toString"\<close> and \<^verbatim>\<open>"constructor"\<close>: the registry has no such
  asset and the fallback to the neutral asset is not taken, because the read finds the
  member inherited from \<^verbatim>\<open>Object.prototype\<close>.  For a key that is simply absent, such as
  \<^verbatim>\<open>"freaky"\<close>, the neutral asset is returned.
\<close>

theorem getMeme_inherited_member:
  "getMeme ''toString'' = Some (Inherited ''toString'')
   \<and> getMeme ''constructor'' = Some (Inherited ''constructor'')
   \<and> map_of MEMES ''toString'' = None
   \<and> getMeme ''freaky'' = Some (Own \<lparr> asset_key = ''neutral'', asset_type = Image,
                                       asset_src = ''/memes/neutral.jpeg'' \<rparr>)"
  by (simp add: getMeme_def MEMES_get_def MEMES_def Object_prototype_def DEFAULT_MEME_KEY_def)

text \<open>For every key that names no inherited member the lookup is total, with the neutral fallback.\<close>

lemma getMeme_total_outside_prototype:
  assumes "k \<notin> set Object_prototype"
  shows "\<exists>a. getMeme k = Some (Own a)
           \<and> (map_of MEMES k = Some a
              \<or> map_of MEMES k = None \<and> map_of MEMES DEFAULT_MEME_KEY = Some a)"
proof (cases "map_of MEMES k")
  case None
  have "map_of MEMES DEFAULT_MEME_KEY \<noteq> None"
    by (simp add: MEMES_def DEFAULT_MEME_KEY_def)
  then obtain a where "map_of MEMES DEFAULT_MEME_KEY = Some a" by blast
  with None assms show ?thesis
    by (simp add: getMeme_def MEMES_get_def)
next
  case (Some a)
  then show ?thesis by (simp add: getMeme_def MEMES_get_def)
qed

section \<open>Properties of the tongue colour detector\<close>

lemma redDominant_spec: "redDominant r g b = spec_redPixel (r, g, b, a)"
  by (auto simp: redDominant_def spec_redPixel_def)

lemma redLoop_rgbaBytes:
  "redLoop (rgbaBytes px) redCount n =
     (redCount + length (filter spec_redPixel px), n + length px)"
proof (induction px arbitrary: redCount n)
  case Nil
  show ?case by (simp add: rgbaBytes_def)
next
  case (Cons p px)
  obtain r g b a where p: "p = (r, g, b, a)" by (cases p)
  have "rgbaBytes (p # px) = r # g # b # a # rgbaBytes px"
    by (simp add: rgbaBytes_def p)
  then show ?case
    using Cons.IH by (simp add: p redDominant_spec [of r g b a])
qed

lemma redLoop_le:
  "redLoop data redCount n = (rc, m) \<Longrightarrow> redCount \<le> n \<Longrightarrow> rc \<le> m"
  by (induction data redCount n rule: redLoop.induct) (auto split: if_splits)

lemma getTongueConfidence_missing:
  assumes "length lms \<le> 291"
  shows "getTongueConfidence v lms = None"
proof -
  have "nth_opt lms 291 = None" using assms by (simp add: nth_opt_def)
  then show ?thesis
    by (simp add: getTongueConfidence_def split: option.split)
qed

lemma getTongueConfidence_present:
  assumes "291 < length lms"
  shows "getTongueConfidence v lms =
     (if videoWidth v = 0 \<or> videoHeight v = 0 then None
      else
        (let c = tongueCrop (videoWidth v) (videoHeight v) (lms ! 61) (lms ! 291) (lms ! 13)
                   (lms ! 14)
         in if clampedWidth c \<le> 0 \<or> clampedHeight c \<le> 0 then None
            else if \<not> canvasCtx v then None
            else
              (let data = frameData v (sampleX c) (sampleY c) (clampedWidth c) (clampedHeight c);
                   (redCount, n) = redLoop data 0 0
               in if n = 0 then None else Some (real redCount / real n))))"
proof -
  have idx: "nth_opt lms 61 = Some (lms ! 61)" "nth_opt lms 291 = Some (lms ! 291)"
    "nth_opt lms 13 = Some (lms ! 13)" "nth_opt lms 14 = Some (lms ! 14)"
    using assms by (simp_all add: nth_opt_def)
  show ?thesis unfolding getTongueConfidence_def idx by simp
qed

lemma getTongueConfidence_range:
  assumes "getTongueConfidence v lms = Some c"
  shows "0 \<le> c \<and> c \<le> 1"
proof (cases "291 < length lms")
  case False
  then show ?thesis using assms getTongueConfidence_missing [of lms v] by simp
next
  case True
  define data where "data = frameData v
     (sampleX (tongueCrop (videoWidth v) (videoHeight v) (lms ! 61) (lms ! 291) (lms ! 13) (lms ! 14)))
     (sampleY (tongueCrop (videoWidth v) (videoHeight v) (lms ! 61) (lms ! 291) (lms ! 13) (lms ! 14)))
     (clampedWidth (tongueCrop (videoWidth v) (videoHeight v) (lms ! 61) (lms ! 291) (lms ! 13) (lms ! 14)))
     (clampedHeight (tongueCrop (videoWidth v) (videoHeight v) (lms ! 61) (lms ! 291) (lms ! 13) (lms ! 14)))"
  obtain rc m where rl: "redLoop data 0 0 = (rc, m)" by (cases "redLoop data 0 0")
  from assms have "m \<noteq> 0 \<and> c = real rc / real m"
    unfolding getTongueConfidence_present [OF True] Let_def data_def [symmetric] rl
    by (simp split: if_splits)
  moreover from redLoop_le [OF rl] have "rc \<le> m" by simp
  ultimately show ?thesis by simp
qed
lemma fixture_mouth_nth:
  "length fixture_mouth = 478"
  "fixture_mouth ! 61 = Landmark 0.4 0.5" "fixture_mouth ! 291 = Landmark 0.6 0.5"
  "fixture_mouth ! 13 = Landmark 0.5 0.45" "fixture_mouth ! 14 = Landmark 0.5 0.55"
  "fixture_mouth ! 1 = Landmark 0.5 0.4" "fixture_mouth ! 152 = Landmark 0.5 0.9"
  by (simp_all add: fixture_mouth_def)

lemma fixture_crop:
  "tongueCrop (videoWidth fixture_video) (videoHeight fixture_video)
     (fixture_mouth ! 61) (fixture_mouth ! 291) (fixture_mouth ! 13) (fixture_mouth ! 14) =
   \<lparr> mouthWidth = 200, mouthHeight = 100, sampleWidth = 100, sampleHeight = 60,
     centerX = 500, centerY = 510, sampleX = 450, sampleY = 480,
     clampedWidth = 100, clampedHeight = 60 \<rparr>"
  unfolding fixture_mouth_nth fixture_video_def VideoFrame.select_convs tongueCrop_def Let_def
  by simp

lemma fixture_redLoop: "redLoop (rgbaBytes fixture_pixels) 0 0 = (1, 2)"
  by (simp add: fixture_pixels_def rgbaBytes_def redDominant_def)

lemma fixture_confidence: "getTongueConfidence fixture_video fixture_mouth = Some (1 / 2)"
proof -
  have len: "291 < length fixture_mouth" by (simp add: fixture_mouth_nth)
  have data: "frameData fixture_video 450 480 100 60 = rgbaBytes fixture_pixels"
    by (simp add: fixture_video_def)
  show ?thesis
    unfolding getTongueConfidence_present [OF len] Let_def fixture_crop TongueCrop.select_convs
      data fixture_redLoop
    by (simp add: fixture_video_def)
qed

text \<open>
  Claim C7, as the spec states it, at the fixture: the crop would be 60% of the mouth
  width.  The mouth is 200 pixels wide, the crop that is sampled (the detector returns
  the fraction 1/2 for it) is 100 pixels wide.
\<close>

theorem tongue_crop_width_counterexample:
  "getTongueConfidence fixture_video fixture_mouth = Some (1 / 2)
   \<and> \<not> (real_of_int (clampedWidth
              (tongueCrop (videoWidth fixture_video) (videoHeight fixture_video)
                 (fixture_mouth ! 61) (fixture_mouth ! 291) (fixture_mouth ! 13)
                 (fixture_mouth ! 14)))
          = 0.6 * mouthWidth
              (tongueCrop (videoWidth fixture_video) (videoHeight fixture_video)
                 (fixture_mouth ! 61) (fixture_mouth ! 291) (fixture_mouth ! 13)
                 (fixture_mouth ! 14)))"
  unfolding fixture_crop TongueCrop.select_convs using fixture_confidence by simp

text \<open>
  Claim C7, amended.  With the mouth box measured in pixels (width and height at least 1),
  the crop is \<open>max(6, floor(50% of the mouth width))\<close> wide and
  \<open>max(4, floor(60% of the mouth height))\<close> high; its corner is the floor, not below 0, of
  the centre minus half the crop size, the centre being the midpoint of the mouth corners
  horizontally and the midpoint of the lips shifted down by 10% of the mouth height
  vertically; it is clamped to the frame.  Every value returned lies in [0, 1].  The
  detector returns nothing, and does not throw, when a mouth landmark is missing, a frame
  dimension is 0 or there is no drawing context.  When the crop is not empty and the
  canvas yields the bytes of a non-empty pixel list, the value is the fraction of
  red-dominant pixels of that list.
\<close>

theorem getTongueConfidence_amended:
  fixes v :: VideoFrame and lms :: "Landmark list"
  defines "c \<equiv> tongueCrop (videoWidth v) (videoHeight v) (lms ! 61) (lms ! 291) (lms ! 13) (lms ! 14)"
  shows
    "(\<forall>conf. getTongueConfidence v lms = Some conf \<longrightarrow> 0 \<le> conf \<and> conf \<le> 1)
     \<and> (length lms \<le> 291 \<or> videoWidth v = 0 \<or> videoHeight v = 0 \<or> \<not> canvasCtx v
          \<longrightarrow> getTongueConfidence v lms = None)
     \<and> mouthWidth c = max (x_of (lms ! 291) * real (videoWidth v)
                             - x_of (lms ! 61) * real (videoWidth v)) 1
     \<and> mouthHeight c = max (y_of (lms ! 14) * real (videoHeight v)
                              - y_of (lms ! 13) * real (videoHeight v)) 1
     \<and> sampleWidth c = max 6 \<lfloor>mouthWidth c * 0.5\<rfloor>
     \<and> sampleHeight c = max 4 \<lfloor>mouthHeight c * 0.6\<rfloor>
     \<and> centerX c = (x_of (lms ! 61) * real (videoWidth v)
                     + x_of (lms ! 291) * real (videoWidth v)) / 2
     \<and> centerY c = (y_of (lms ! 13) * real (videoHeight v)
                     + y_of (lms ! 14) * real (videoHeight v)) / 2 + mouthHeight c * 0.1
     \<and> sampleX c = max 0 \<lfloor>centerX c - real_of_int (sampleWidth c) / 2\<rfloor>
     \<and> sampleY c = max 0 \<lfloor>centerY c - real_of_int (sampleHeight c) / 2\<rfloor>
     \<and> clampedWidth c = min (sampleWidth c) (int (videoWidth v) - sampleX c)
     \<and> clampedHeight c = min (sampleHeight c) (int (videoHeight v) - sampleY c)
     \<and> (291 < length lms \<and> videoWidth v \<noteq> 0 \<and> videoHeight v \<noteq> 0 \<and> canvasCtx v
          \<and> 0 < clampedWidth c \<and> 0 < clampedHeight c \<and> px \<noteq> []
          \<and> frameData v (sampleX c) (sampleY c) (clampedWidth c) (clampedHeight c) = rgbaBytes px
          \<longrightarrow> getTongueConfidence v lms = Some (spec_redFraction px))"
proof -
  have range: "\<forall>conf. getTongueConfidence v lms = Some conf \<longrightarrow> 0 \<le> conf \<and> conf \<le> 1"
    using getTongueConfidence_range by blast
  have unavailable: "length lms \<le> 291 \<or> videoWidth v = 0 \<or> videoHeight v = 0 \<or> \<not> canvasCtx v
          \<longrightarrow> getTongueConfidence v lms = None"
    using getTongueConfidence_missing [of lms v] getTongueConfidence_present [of lms v]
    by (cases "291 < length lms") (simp_all add: Let_def)
  have crop: "mouthWidth c = max (x_of (lms ! 291) * real (videoWidth v)
                             - x_of (lms ! 61) * real (videoWidth v)) 1"
    "mouthHeight c = max (y_of (lms ! 14) * real (videoHeight v)
                              - y_of (lms ! 13) * real (videoHeight v)) 1"
    "sampleWidth c = max 6 \<lfloor>mouthWidth c * 0.5\<rfloor>"
    "sampleHeight c = max 4 \<lfloor>mouthHeight c * 0.6\<rfloor>"
    "centerX c = (x_of (lms ! 61) * real (videoWidth v)
                     + x_of (lms ! 291) * real (videoWidth v)) / 2"
    "centerY c = (y_of (lms ! 13) * real (videoHeight v)
                     + y_of (lms ! 14) * real (videoHeight v)) / 2 + mouthHeight c * 0.1"
    "sampleX c = max 0 \<lfloor>centerX c - real_of_int (sampleWidth c) / 2\<rfloor>"
    "sampleY c = max 0 \<lfloor>centerY c - real_of_int (sampleHeight c) / 2\<rfloor>"
    "clampedWidth c = min (sampleWidth c) (int (videoWidth v) - sampleX c)"
    "clampedHeight c = min (sampleHeight c) (int (videoHeight v) - sampleY c)"
    by (simp_all only: c_def tongueCrop_def Let_def TongueCrop.select_convs)
  have sampled: "291 < length lms \<and> videoWidth v \<noteq> 0 \<and> videoHeight v \<noteq> 0 \<and> canvasCtx v
          \<and> 0 < clampedWidth c \<and> 0 < clampedHeight c \<and> px \<noteq> []
          \<and> frameData v (sampleX c) (sampleY c) (clampedWidth c) (clampedHeight c) = rgbaBytes px
          \<longrightarrow> getTongueConfidence v lms = Some (spec_redFraction px)"
  proof
    assume h: "291 < length lms \<and> videoWidth v \<noteq> 0 \<and> videoHeight v \<noteq> 0 \<and> canvasCtx v
          \<and> 0 < clampedWidth c \<and> 0 < clampedHeight c \<and> px \<noteq> []
          \<and> frameData v (sampleX c) (sampleY c) (clampedWidth c) (clampedHeight c) = rgbaBytes px"
    then have "291 < length lms" by simp
    from h show "getTongueConfidence v lms = Some (spec_redFraction px)"
      unfolding getTongueConfidence_present [OF \<open>291 < length lms\<close>] c_def [symmetric]
      by (simp add: Let_def redLoop_rgbaBytes spec_redFraction_def)
  qed
  from range unavailable crop sampled show ?thesis by (intro conjI)
qed

text \<open>The amended C7 at the fixture, and at an empty landmark array.\<close>

theorem getTongueConfidence_amended_witness:
  "291 < length fixture_mouth \<and> videoWidth fixture_video \<noteq> 0
   \<and> videoHeight fixture_video \<noteq> 0 \<and> canvasCtx fixture_video \<and> fixture_pixels \<noteq> []
   \<and> getTongueConfidence fixture_video fixture_mouth = Some (spec_redFraction fixture_pixels)
   \<and> spec_redFraction fixture_pixels = 1 / 2
   \<and> length ([] :: Landmark list) \<le> 291
   \<and> getTongueConfidence fixture_video [] = None"
proof -
  note t = getTongueConfidence_amended [of fixture_video fixture_mouth fixture_pixels]
  note sampled = t [THEN conjunct2, THEN conjunct2, THEN conjunct2, THEN conjunct2,
      THEN conjunct2, THEN conjunct2, THEN conjunct2, THEN conjunct2, THEN conjunct2,
      THEN conjunct2, THEN conjunct2, THEN conjunct2, unfolded fixture_crop TongueCrop.select_convs]
  note missing = getTongueConfidence_amended [of fixture_video "[]" fixture_pixels,
      THEN conjunct2, THEN conjunct1]
  have h: "291 < length fixture_mouth" "videoWidth fixture_video \<noteq> 0"
    "videoHeight fixture_video \<noteq> 0" "canvasCtx fixture_video" "fixture_pixels \<noteq> []"
    "frameData fixture_video 450 480 100 60 = rgbaBytes fixture_pixels"
    by (simp_all add: fixture_mouth_nth fixture_video_def fixture_pixels_def)
  have conf: "getTongueConfidence fixture_video fixture_mouth = Some (spec_redFraction fixture_pixels)"
    using sampled h by simp
  have frac: "spec_redFraction fixture_pixels = 1 / 2"
    by (simp add: spec_redFraction_def spec_redPixel_def fixture_pixels_def)
  have none: "getTongueConfidence fixture_video [] = None"
    using missing by simp
  from h(1-5) conf frac none show ?thesis by simp
qed

section \<open>Properties of the driver: what the blocks leave unchanged\<close>

lemma markLoopStarted_fields [simp]:
  "lastDetectedAt (markLoopStarted cl s) = lastDetectedAt s"
  "lastFaceState (markLoopStarted cl s) = lastFaceState s"
  "lastVideoTime (markLoopStarted cl s) = lastVideoTime s"
  "lastVideoTimeAt (markLoopStarted cl s) = lastVideoTimeAt s"
  "tongueHoldUntil (markLoopStarted cl s) = tongueHoldUntil s"
  by (simp_all add: markLoopStarted_def Let_def)

lemma afterChecks_fields [simp]:
  "lastDetectedAt (afterChecks cl f s) = lastDetectedAt s"
  "lastFaceState (afterChecks cl f s) = lastFaceState s"
  "tongueHoldUntil (afterChecks cl f s) = tongueHoldUntil s"
  "lastVideoTime (afterChecks cl f s) = Some (currentTime f)"
  by (simp_all add: afterChecks_def Let_def split: option.split)

lemma forceAbsent_fields [simp]:
  "lastDetectedAt (forceAbsent cl b s) = None"
  "lastFaceState (forceAbsent cl b s) = False"
  "tongueHoldUntil (forceAbsent cl b s) = tongueHoldUntil s"
  by (simp_all add: forceAbsent_def Let_def)

lemma presenceGate_result:
  "fst (presenceGate f s) =
     (frameDetected f \<or> (\<exists>t. lastDetectedAt s = Some t \<and> now f - t < FACE_HOLD_MS))"
  "lastFaceState (snd (presenceGate f s)) = fst (presenceGate f s)"
  "lastDetectedAt (snd (presenceGate f s)) = (if frameDetected f then Some (now f) else None)"
  by (auto simp: presenceGate_def frameDetected_def Let_def split: option.splits)

lemma presenceGate_fields [simp]:
  "tongueHoldUntil (snd (presenceGate f s)) = tongueHoldUntil s"
  "lastVideoTime (snd (presenceGate f s)) = lastVideoTime s"
  by (simp_all add: presenceGate_def Let_def)

lemma absentFrame_fields [simp]:
  "lastDetectedAt (absentFrame s) = lastDetectedAt s"
  "lastFaceState (absentFrame s) = lastFaceState s"
  "tongueHoldUntil (absentFrame s) = tongueHoldUntil s"
  "lastVideoTime (absentFrame s) = lastVideoTime s"
  "rawExpressionLabel (absentFrame s) = NEUTRAL"
  by (simp_all add: absentFrame_def)

lemma noSignals_fields [simp]:
  "lastDetectedAt (noSignals f s) = lastDetectedAt s"
  "lastFaceState (noSignals f s) = lastFaceState s"
  "tongueHoldUntil (noSignals f s) = tongueHoldUntil s"
  "lastVideoTime (noSignals f s) = lastVideoTime s"
  "rawExpressionLabel (noSignals f s) = NEUTRAL"
  by (simp_all add: noSignals_def)

lemma calibrate_fields [simp]:
  "lastDetectedAt (calibrate cl u sm s) = lastDetectedAt s"
  "lastFaceState (calibrate cl u sm s) = lastFaceState s"
  "tongueHoldUntil (calibrate cl u sm s) = tongueHoldUntil s"
  "lastVideoTime (calibrate cl u sm s) = lastVideoTime s"
  "extremes (calibrate cl u sm s) = extremes s"
  by (simp_all add: calibrate_def Let_def)

lemma blendshapeBranch_fields [simp]:
  "fst (blendshapeBranch l bd sm s) = blendLabel l bd sm"
  "lastDetectedAt (snd (blendshapeBranch l bd sm s)) = lastDetectedAt s"
  "lastFaceState (snd (blendshapeBranch l bd sm s)) = lastFaceState s"
  "tongueHoldUntil (snd (blendshapeBranch l bd sm s)) = tongueHoldUntil s"
  "lastVideoTime (snd (blendshapeBranch l bd sm s)) = lastVideoTime s"
  by (simp_all add: blendshapeBranch_def)

lemma rangeBranch_fields [simp]:
  "fst (rangeBranch sm s) = classifyFromRanges sm (rangeMin sm (extremes s)) (rangeMax sm (extremes s))"
  "lastDetectedAt (snd (rangeBranch sm s)) = lastDetectedAt s"
  "lastFaceState (snd (rangeBranch sm s)) = lastFaceState s"
  "tongueHoldUntil (snd (rangeBranch sm s)) = tongueHoldUntil s"
  "lastVideoTime (snd (rangeBranch sm s)) = lastVideoTime s"
  by (simp_all add: rangeBranch_def Let_def)

lemma tongueBlock_fields [simp]:
  "lastDetectedAt (snd (tongueBlock f face l s)) = lastDetectedAt s"
  "lastFaceState (snd (tongueBlock f face l s)) = lastFaceState s"
  "lastVideoTime (snd (tongueBlock f face l s)) = lastVideoTime s"
  "tongueHoldUntil (snd (tongueBlock f face l s)) = holdAfter f face (tongueHoldUntil s)"
  by (simp_all add: tongueBlock_def holdAfter_def Let_def split: option.split)

lemma tongueBlock_label:
  "fst (tongueBlock f face l s) =
     (case face of
        None \<Rightarrow> l
      | Some (lms, ls) \<Rightarrow>
          if holdAfter f face (tongueHoldUntil s) > now f \<and> mouthOpen ls > 0.08
          then FREAKY else l)"
  by (simp add: tongueBlock_def holdAfter_def Let_def split: option.split)

lemma finishFrame_fields [simp]:
  "lastDetectedAt (finishFrame l t s) = lastDetectedAt s"
  "lastFaceState (finishFrame l t s) = lastFaceState s"
  "tongueHoldUntil (finishFrame l t s) = tongueHoldUntil s"
  "lastVideoTime (finishFrame l t s) = lastVideoTime s"
  "rawExpressionLabel (finishFrame l t s) = rawExpressionLabel s"
  by (simp_all add: finishFrame_def Let_def split_def)

lemma classifyFrame_fields [simp]:
  "lastDetectedAt (classifyFrame cl f bd face u raw s) = lastDetectedAt s"
  "lastFaceState (classifyFrame cl f bd face u raw s) = lastFaceState s"
  "lastVideoTime (classifyFrame cl f bd face u raw s) = lastVideoTime s"
  "tongueHoldUntil (classifyFrame cl f bd face u raw s) = holdAfter f face (tongueHoldUntil s)"
  by (simp_all add: classifyFrame_def Let_def split_def)

lemma classifyFrame_rawLabel:
  "rawExpressionLabel (classifyFrame cl f bd face u raw s) =
     (case face of
        None \<Rightarrow> classifiedLabel bd u raw s
      | Some (lms, ls) \<Rightarrow>
          if holdAfter f face (tongueHoldUntil s) > now f \<and> mouthOpen ls > 0.08
          then FREAKY else classifiedLabel bd u raw s)"
  by (cases u)
     (simp_all add: classifyFrame_def Let_def split_def tongueBlock_label classifiedLabel_def
        split: option.split)

lemma presentFrame_face:
  assumes "landmarkFace f = Inr face"
  shows "presentFrame cl f s =
     Inr (case rawSignalsOf f face of
            None \<Rightarrow> noSignals f s
          | Some raw \<Rightarrow> classifyFrame cl f (getBlendshapeDebug (categories f)) face (useBlendshapesOf f) raw s)"
  using assms
  by (simp add: presentFrame_def rawSignalsOf_def useBlendshapesOf_def Let_def split: option.split)

lemma presentFrame_error:
  assumes "landmarkFace f = Inl e"
  shows "presentFrame cl f s = Inl e"
  using assms by (simp add: presentFrame_def Let_def)

lemma onResult_checked:
  assumes "passesChecks f s"
  shows "onResult cl f s =
     (if fst (presenceGate f (afterChecks cl f s))
      then presentFrame cl f (snd (presenceGate f (afterChecks cl f s)))
      else Inr (absentFrame (snd (presenceGate f (afterChecks cl f s)))))"
  using assms
  by (auto simp: onResult_def passesChecks_def afterChecks_def Let_def not_less
           split: option.splits prod.splits)

lemma onResult_unchecked:
  assumes "\<not> passesChecks f s"
  shows "\<exists>s'. onResult cl f s = Inr s' \<and> lastDetectedAt s' = None \<and> \<not> lastFaceState s'
           \<and> tongueHoldUntil s' = tongueHoldUntil s"
  using assms
  by (auto simp: onResult_def passesChecks_def Let_def not_le split: option.splits)

lemma gate_state_fields [simp]:
  "smoother (markLoopStarted cl s) = smoother s"
  "extremes (markLoopStarted cl s) = extremes s"
  "smoother (afterChecks cl f s) = smoother s"
  "extremes (afterChecks cl f s) = extremes s"
  "smoother (snd (presenceGate f s)) = smoother s"
  "extremes (snd (presenceGate f s)) = extremes s"
  by (simp_all add: markLoopStarted_def afterChecks_def presenceGate_def Let_def
        split: option.split)

section \<open>Properties of the driver: face-presence gating\<close>

lemma landmarkFace_undetected:
  assumes "\<not> frameDetected f"
  shows "landmarkFace f = Inr None"
  using assms
  by (auto simp: landmarkFace_def frameDetected_def nth_opt_def split: option.splits)

lemma landmarkFace_Some_detected:
  assumes "landmarkFace f = Inr (Some x)"
  shows "frameDetected f"
  using assms
  by (auto simp: landmarkFace_def frameDetected_def nth_opt_def split: option.splits if_splits)

lemma landmarkFace_Inl_detected:
  assumes "landmarkFace f = Inl e"
  shows "frameDetected f"
  using assms
  by (auto simp: landmarkFace_def frameDetected_def nth_opt_def split: option.splits if_splits)

lemma computeSignals_ok:
  assumes "386 < length lms"
  shows "\<exists>ls. computeSignals lms = Inr ls"
  using assms
  by (simp add: computeSignals_def IDX_read_def IDX_leftEyeOuter_def IDX_rightEyeOuter_def
        IDX_noseTip_def IDX_chin_def IDX_mouthLeft_def IDX_mouthRight_def IDX_upperLip_def
        IDX_lowerLip_def IDX_leftEyeInner_def IDX_rightEyeInner_def IDX_leftEyeTop_def
        IDX_leftEyeBottom_def IDX_rightEyeTop_def IDX_rightEyeBottom_def Let_def)

lemma onResult_presence:
  assumes "onResult cl f s = Inr s'"
  shows "lastFaceState s' =
           (passesChecks f s
            \<and> (frameDetected f \<or> (\<exists>t. lastDetectedAt s = Some t \<and> now f - t < FACE_HOLD_MS)))"
    and "lastDetectedAt s' = (if passesChecks f s \<and> frameDetected f then Some (now f) else None)"
proof -
  let ?G = "frameDetected f \<or> (\<exists>t. lastDetectedAt s = Some t \<and> now f - t < FACE_HOLD_MS)"
  let ?g = "presenceGate f (afterChecks cl f s)"
  have "lastFaceState s' = (passesChecks f s \<and> ?G)
      \<and> lastDetectedAt s' = (if passesChecks f s \<and> frameDetected f then Some (now f) else None)"
  proof (cases "passesChecks f s")
    case False
    from onResult_unchecked [OF False, of cl] assms show ?thesis
      using False by auto
  next
    case True
    have gate: "fst ?g = ?G" "lastFaceState (snd ?g) = ?G"
      "lastDetectedAt (snd ?g) = (if frameDetected f then Some (now f) else None)"
      by (simp_all add: presenceGate_result)
    show ?thesis
    proof (cases "fst ?g")
      case False
      with assms True have "s' = absentFrame (snd ?g)"
        by (simp add: onResult_checked)
      with gate True show ?thesis by simp
    next
      case present: True
      with assms True have pf: "presentFrame cl f (snd ?g) = Inr s'"
        by (simp add: onResult_checked)
      then obtain face where face: "landmarkFace f = Inr face"
        by (cases "landmarkFace f") (simp_all add: presentFrame_error)
      from pf have "lastFaceState s' = lastFaceState (snd ?g)
                  \<and> lastDetectedAt s' = lastDetectedAt (snd ?g)"
        unfolding presentFrame_face [OF face]
        by (auto split: option.splits)
      with gate True show ?thesis by simp
    qed
  qed
  then show "lastFaceState s' =
           (passesChecks f s
            \<and> (frameDetected f \<or> (\<exists>t. lastDetectedAt s = Some t \<and> now f - t < FACE_HOLD_MS)))"
    and "lastDetectedAt s' = (if passesChecks f s \<and> frameDetected f then Some (now f) else None)"
    by blast+
qed

lemma onResult_returns:
  assumes "landmarkFace f = Inr face"
  shows "\<exists>s'. onResult cl f s = Inr s'"
proof (cases "passesChecks f s")
  case False
  from onResult_unchecked [OF False, of cl] show ?thesis by blast
next
  case True
  show ?thesis
    unfolding onResult_checked [OF True] presentFrame_face [OF assms] by simp
qed

lemma undetected_run_absent:
  assumes "\<forall>f \<in> set fs. \<not> frameDetected f" and "lastDetectedAt s = None"
    and "fs \<noteq> [] \<or> \<not> lastFaceState s"
  shows "\<exists>s'. runFrames cl s fs = Inr s' \<and> \<not> lastFaceState s' \<and> lastDetectedAt s' = None"
  using assms
proof (induction fs arbitrary: s)
  case Nil
  then show ?case by simp
next
  case (Cons f fs)
  from Cons.prems(1) have nd: "\<not> frameDetected f" by simp
  from onResult_returns [OF landmarkFace_undetected [OF nd], of cl s]
  obtain s1 where s1: "onResult cl f s = Inr s1" by blast
  from onResult_presence [OF s1] nd Cons.prems(2)
  have "\<not> lastFaceState s1" "lastDetectedAt s1 = None" by simp_all
  with Cons.IH [of s1] Cons.prems(1) s1 show ?case by simp
qed

lemma onResult_videoTime:
  assumes "onResult cl f s = Inr s'" and "passesChecks f s"
  shows "lastVideoTime s' = Some (currentTime f)"
proof -
  let ?g = "presenceGate f (afterChecks cl f s)"
  show ?thesis
  proof (cases "fst ?g")
    case False
    with assms have "s' = absentFrame (snd ?g)" by (simp add: onResult_checked)
    then show ?thesis by simp
  next
    case True
    with assms have pf: "presentFrame cl f (snd ?g) = Inr s'" by (simp add: onResult_checked)
    then obtain face where face: "landmarkFace f = Inr face"
      by (cases "landmarkFace f") (simp_all add: presentFrame_error)
    from pf show ?thesis
      unfolding presentFrame_face [OF face] by (auto split: option.splits)
  qed
qed

lemma passesChecks_next:
  assumes "lastVideoTime s = Some vt" and "currentTime f \<noteq> vt"
    and "videoPresent f" "2 \<le> readyState f" "trackLive f"
  shows "passesChecks f s"
  using assms by (simp add: passesChecks_def)

lemma fixture_face_ok:
  "\<exists>ls. landmarkFace (fixture_frame t v (Some [fixture_mouth]) cats)
          = Inr (Some (fixture_mouth, ls))"
proof -
  from computeSignals_ok [of fixture_mouth] obtain ls where "computeSignals fixture_mouth = Inr ls"
    by (auto simp: fixture_mouth_nth)
  then show ?thesis
    by (simp add: landmarkFace_def fixture_frame_def nth_opt_def)
qed

lemma fixture_frame_simps [simp]:
  "videoPresent (fixture_frame t v faces cats)"
  "readyState (fixture_frame t v faces cats) = 4"
  "trackLive (fixture_frame t v faces cats)"
  "currentTime (fixture_frame t v faces cats) = t / 1000"
  "now (fixture_frame t v faces cats) = t"
  "video (fixture_frame t v faces cats) = v"
  "categories (fixture_frame t v faces cats) = cats"
  "frameDetected (fixture_frame t v faces cats) =
     (case faces of None \<Rightarrow> False | Some fs \<Rightarrow> fs \<noteq> [])"
  by (simp_all add: fixture_frame_def frameDetected_def split: option.splits)

lemma fixture_first_frame:
  "passesChecks (fixture_frame t v faces cats) App_init"
  by (simp add: passesChecks_def App_init_def)

lemma fixture_run_detected:
  "\<exists>s0. onResult fixture_closure (fixture_frame 0 fixture_video (Some [fixture_mouth]) None)
          App_init = Inr s0
        \<and> lastVideoTime s0 = Some 0"
proof -
  let ?A = "fixture_frame 0 fixture_video (Some [fixture_mouth]) None"
  from fixture_face_ok [of 0 fixture_video None] obtain ls
    where "landmarkFace ?A = Inr (Some (fixture_mouth, ls))" by blast
  from onResult_returns [OF this, of fixture_closure App_init]
  obtain s0 where s0: "onResult fixture_closure ?A App_init = Inr s0" by blast
  from onResult_videoTime [OF s0 fixture_first_frame] s0 show ?thesis by simp
qed

text \<open>
  Claim C1, as the spec states it, on a run with a detected face at 0 ms and no face at
  200 ms and at 400 ms: the presence state would still be PRESENT at 400 ms, the time
  since the last detected frame being below the hold window.  It is ABSENT.
\<close>

theorem presence_hold_counterexample:
  "map_sum id lastFaceState
     (runFrames fixture_closure App_init
        [fixture_frame 0 fixture_video (Some [fixture_mouth]) None,
         fixture_frame 200 fixture_video (Some []) None,
         fixture_frame 400 fixture_video (Some []) None]) = Inr False
   \<and> (400::real) - 0 < FACE_HOLD_MS"
proof -
  let ?A = "fixture_frame 0 fixture_video (Some [fixture_mouth]) None"
  let ?B = "fixture_frame 200 fixture_video (Some []) None"
  let ?C = "fixture_frame 400 fixture_video (Some []) None"
  from fixture_run_detected obtain s0
    where s0: "onResult fixture_closure ?A App_init = Inr s0" by blast
  from onResult_returns [OF landmarkFace_undetected, of ?B fixture_closure s0]
  obtain s1 where s1: "onResult fixture_closure ?B s0 = Inr s1" by auto
  from onResult_presence(2) [OF s1] have d1: "lastDetectedAt s1 = None" by simp
  from onResult_returns [OF landmarkFace_undetected, of ?C fixture_closure s1]
  obtain s2 where s2: "onResult fixture_closure ?C s1 = Inr s2" by auto
  from onResult_presence(1) [OF s2] d1 have "\<not> lastFaceState s2" by simp
  with s0 s1 s2 show ?thesis by (simp add: FACE_HOLD_MS_def)
qed

text \<open>
  Claim C1, amended.  In every run in which a frame that passes the checks has a detected
  face and the next frame passes the checks without one, the presence state is PRESENT
  after the first and, after the second, PRESENT exactly when the time between the two is
  below 500 ms (so a gap of 400 ms keeps PRESENT and a gap of 600 ms gives ABSENT); after
  any further frames without a detected face the state is ABSENT whatever their times,
  the first undetected frame having cleared the time of the last detection.  None of
  these frames throws.
\<close>

theorem presence_hold_single_frame:
  assumes "onResult cl f0 s = Inr s0" "passesChecks f0 s" "frameDetected f0"
    and "\<not> frameDetected f1" "passesChecks f1 s0"
    and "\<forall>f \<in> set fs. \<not> frameDetected f"
  shows "lastFaceState s0
       \<and> (\<exists>s1. onResult cl f1 s0 = Inr s1
              \<and> (lastFaceState s1 \<longleftrightarrow> now f1 - now f0 < 500)
              \<and> (\<exists>s2. runFrames cl s1 fs = Inr s2 \<and> (fs \<noteq> [] \<longrightarrow> \<not> lastFaceState s2)))"
proof -
  from onResult_presence [OF assms(1)] assms(2,3)
  have s0: "lastFaceState s0" "lastDetectedAt s0 = Some (now f0)" by simp_all
  from onResult_returns [OF landmarkFace_undetected [OF assms(4)], of cl s0]
  obtain s1 where s1: "onResult cl f1 s0 = Inr s1" by blast
  from onResult_presence [OF s1] assms(4,5) s0
  have p1: "lastFaceState s1 \<longleftrightarrow> now f1 - now f0 < 500" "lastDetectedAt s1 = None"
    by (simp_all add: FACE_HOLD_MS_def)
  have "\<exists>s2. runFrames cl s1 fs = Inr s2 \<and> (fs \<noteq> [] \<longrightarrow> \<not> lastFaceState s2)"
  proof (cases "fs = []")
    case True
    then show ?thesis by simp
  next
    case False
    from undetected_run_absent [OF assms(6) p1(2), of cl] False show ?thesis by blast
  qed
  with s0(1) s1 p1(1) show ?thesis by blast
qed

text \<open>
  The amended C1 on runs from the initial state: a detection at 0 ms followed by an
  undetected frame at 200 ms (PRESENT), at 600 ms (ABSENT), and at 200 and 300 ms (ABSENT).
\<close>

theorem presence_hold_single_frame_witness:
  "passesChecks (fixture_frame 0 fixture_video (Some [fixture_mouth]) None) App_init
   \<and> frameDetected (fixture_frame 0 fixture_video (Some [fixture_mouth]) None)
   \<and> \<not> frameDetected (fixture_frame 200 fixture_video (Some []) None)
   \<and> map_sum id (passesChecks (fixture_frame 200 fixture_video (Some []) None))
     (runFrames fixture_closure App_init
        [fixture_frame 0 fixture_video (Some [fixture_mouth]) None]) = Inr True
   \<and> map_sum id lastFaceState
     (runFrames fixture_closure App_init
        [fixture_frame 0 fixture_video (Some [fixture_mouth]) None]) = Inr True
   \<and> map_sum id lastFaceState
     (runFrames fixture_closure App_init
        [fixture_frame 0 fixture_video (Some [fixture_mouth]) None,
         fixture_frame 200 fixture_video (Some []) None]) = Inr True
   \<and> map_sum id lastFaceState
     (runFrames fixture_closure App_init
        [fixture_frame 0 fixture_video (Some [fixture_mouth]) None,
         fixture_frame 600 fixture_video (Some []) None]) = Inr False
   \<and> map_sum id lastFaceState
     (runFrames fixture_closure App_init
        [fixture_frame 0 fixture_video (Some [fixture_mouth]) None,
         fixture_frame 200 fixture_video (Some []) None,
         fixture_frame 300 fixture_video (Some []) None]) = Inr False"
proof -
  let ?A = "fixture_frame 0 fixture_video (Some [fixture_mouth]) None"
  let ?B = "fixture_frame 200 fixture_video (Some []) None"
  let ?B' = "fixture_frame 600 fixture_video (Some []) None"
  let ?C = "fixture_frame 300 fixture_video (Some []) None"
  from fixture_run_detected obtain s0
    where s0: "onResult fixture_closure ?A App_init = Inr s0" "lastVideoTime s0 = Some 0"
    by blast
  have det: "frameDetected ?A" "\<not> frameDetected ?B" "\<not> frameDetected ?B'"
    "\<forall>f \<in> set [?C]. \<not> frameDetected f" "\<forall>f \<in> set []. \<not> frameDetected f"
    by simp_all
  have chk: "passesChecks ?B s0" "passesChecks ?B' s0"
    by (rule passesChecks_next [OF s0(2)]; simp)+
  from presence_hold_single_frame [OF s0(1) fixture_first_frame det(1) det(2) chk(1) det(4)]
  obtain s1 s2 where r1: "lastFaceState s0" "onResult fixture_closure ?B s0 = Inr s1"
    "lastFaceState s1" "runFrames fixture_closure s1 [?C] = Inr s2" "\<not> lastFaceState s2"
    by auto
  from presence_hold_single_frame [OF s0(1) fixture_first_frame det(1) det(3) chk(2) det(5)]
  obtain s1' where r2: "onResult fixture_closure ?B' s0 = Inr s1'" "\<not> lastFaceState s1'"
    by auto
  from s0(1) r1 r2 det(1,2) chk(1) show ?thesis by (simp add: fixture_first_frame)
qed

section \<open>Properties of the driver: the tongue detectors and the hold timer\<close>

lemma classifiedLabel_cong:
  "smoother s = smoother s' \<Longrightarrow> extremes s = extremes s'
     \<Longrightarrow> classifiedLabel bd u raw s = classifiedLabel bd u raw s'"
  by (simp add: classifiedLabel_def)



lemma tongueProxy_NEUTRAL: "\<not> tongueProxy NEUTRAL bd"
  by (simp add: tongueProxy_def tongueOut_def orElse_def Let_def split: option.split)

lemma blendFires_never: "\<not> blendFires f"
  by (simp add: blendFires_def tongueProxy_NEUTRAL)


lemma rawSignalsOf_face:
  "\<exists>raw. rawSignalsOf f (Some (lms, ls)) = Some raw"
  by (auto simp: rawSignalsOf_def useBlendshapesOf_def)

lemma onResult_rawLabel:
  assumes "passesChecks f s" and "landmarkFace f = Inr (Some (lms, ls))"
  shows "\<exists>s' raw. onResult cl f s = Inr s'
           \<and> rawSignalsOf f (Some (lms, ls)) = Some raw
           \<and> tongueHoldUntil s' = holdAfter f (Some (lms, ls)) (tongueHoldUntil s)
           \<and> rawExpressionLabel s' =
               (if holdAfter f (Some (lms, ls)) (tongueHoldUntil s) > now f \<and> mouthOpen ls > 0.08
                then FREAKY
                else classifiedLabel (getBlendshapeDebug (categories f)) (useBlendshapesOf f) raw s)"
proof -
  let ?g = "presenceGate f (afterChecks cl f s)"
  obtain raw where raw: "rawSignalsOf f (Some (lms, ls)) = Some raw"
    using rawSignalsOf_face by blast
  have gate: "fst ?g"
    using landmarkFace_Some_detected [OF assms(2)] by (simp add: presenceGate_result)
  have eq: "onResult cl f s =
      Inr (classifyFrame cl f (getBlendshapeDebug (categories f)) (Some (lms, ls)) (useBlendshapesOf f) raw (snd ?g))"
    unfolding onResult_checked [OF assms(1)] presentFrame_face [OF assms(2)] raw
    using gate by simp
  have lbl: "classifiedLabel (getBlendshapeDebug (categories f)) (useBlendshapesOf f) raw (snd ?g)
           = classifiedLabel (getBlendshapeDebug (categories f)) (useBlendshapesOf f) raw s"
    by (rule classifiedLabel_cong) simp_all
  show ?thesis
    unfolding eq using raw by (simp add: classifyFrame_rawLabel lbl)
qed

lemma holdAfter_colourFires:
  assumes "landmarkFace f = Inr (Some (lms, ls))"
  shows "holdAfter f (Some (lms, ls)) h = (if colourFires f then now f + 700 else h)"
  using assms by (simp add: holdAfter_def colourFires_def)





lemma dist2D_same_x: "dist2D (Landmark a y1) (Landmark a y2) = \<bar>y1 - y2\<bar>"
  by (simp add: dist2D_def)

lemma computeSignals_mouthOpen:
  assumes "computeSignals lms = Inr ls"
  shows "mouthOpen ls =
           dist2D (lms ! 13) (lms ! 14) / max (dist2D (lms ! 1) (lms ! 152)) (1 / 1000000)"
  using assms
  by (auto simp: computeSignals_def Let_def IDX_upperLip_def IDX_lowerLip_def IDX_noseTip_def
        IDX_chin_def split: if_splits)

lemma fixture_signals:
  "\<exists>ls. computeSignals fixture_mouth = Inr ls \<and> mouthOpen ls = 1 / 5"
proof -
  from computeSignals_ok [of fixture_mouth] obtain ls where ls: "computeSignals fixture_mouth = Inr ls"
    by (auto simp: fixture_mouth_nth)
  have "mouthOpen ls = 1 / 5"
    unfolding computeSignals_mouthOpen [OF ls] fixture_mouth_nth dist2D_same_x by simp
  with ls show ?thesis by blast
qed

lemma fixture_face:
  "\<exists>ls. landmarkFace (fixture_frame t v (Some [fixture_mouth]) cats)
          = Inr (Some (fixture_mouth, ls)) \<and> mouthOpen ls = 1 / 5"
proof -
  from fixture_signals obtain ls
    where "computeSignals fixture_mouth = Inr ls" "mouthOpen ls = 1 / 5" by blast
  then show ?thesis
    by (simp add: landmarkFace_def fixture_frame_def nth_opt_def)
qed

lemma fixture_no_canvas_confidence: "getTongueConfidence fixture_no_canvas lms = None"
proof (cases "291 < length lms")
  case True
  show ?thesis
    unfolding getTongueConfidence_present [OF True]
    by (simp add: fixture_no_canvas_def Let_def)
next
  case False
  then show ?thesis by (simp add: getTongueConfidence_missing)
qed


lemma fixture_colour_quiet:
  "\<not> colourFires (fixture_frame t fixture_no_canvas faces cats)"
  by (simp add: colourFires_def fixture_no_canvas_confidence split: sum.split option.split)

lemma smoothUpdate_fresh: "fst (smoothUpdate sg (SignalSmoother_new a)) = sg"
  by (simp add: smoothUpdate_def SignalSmoother_new_def signalEntries_def EmaSmoother_update_def
        EmaSmoother_new_def orElse_def Let_def split_def)

lemma fixture_first_result:
  "\<exists>s1 ls raw. onResult fixture_closure
            (fixture_frame 0 v (Some [fixture_mouth]) cats) App_init = Inr s1
        \<and> mouthOpen ls = 1 / 5
        \<and> landmarkFace (fixture_frame 0 v (Some [fixture_mouth]) cats)
            = Inr (Some (fixture_mouth, ls))
        \<and> rawSignalsOf (fixture_frame 0 v (Some [fixture_mouth]) cats)
            (Some (fixture_mouth, ls)) = Some raw
        \<and> lastVideoTime s1 = Some 0
        \<and> tongueHoldUntil s1 =
            (if colourFires (fixture_frame 0 v (Some [fixture_mouth]) cats) then 700 else 0)
        \<and> rawExpressionLabel s1 =
            (if colourFires (fixture_frame 0 v (Some [fixture_mouth]) cats) then FREAKY
             else classifiedLabel (getBlendshapeDebug (categories (fixture_frame 0 v (Some [fixture_mouth]) cats)))
                    (useBlendshapesOf (fixture_frame 0 v (Some [fixture_mouth]) cats))
                    raw App_init)"
proof -
  let ?F = "fixture_frame 0 v (Some [fixture_mouth]) cats"
  from fixture_face [of 0 v cats] obtain ls
    where face: "landmarkFace ?F = Inr (Some (fixture_mouth, ls))" "mouthOpen ls = 1 / 5"
    by blast
  from onResult_rawLabel [OF fixture_first_frame face(1), of fixture_closure]
  obtain s1 raw where s1: "onResult fixture_closure ?F App_init = Inr s1"
    "rawSignalsOf ?F (Some (fixture_mouth, ls)) = Some raw"
    "tongueHoldUntil s1 = holdAfter ?F (Some (fixture_mouth, ls)) (tongueHoldUntil App_init)"
    "rawExpressionLabel s1 =
       (if holdAfter ?F (Some (fixture_mouth, ls)) (tongueHoldUntil App_init) > now ?F
           \<and> mouthOpen ls > 0.08
        then FREAKY else classifiedLabel (getBlendshapeDebug (categories ?F)) (useBlendshapesOf ?F) raw App_init)"
    by blast
  have h: "holdAfter ?F (Some (fixture_mouth, ls)) (tongueHoldUntil App_init)
         = (if colourFires ?F then 700 else 0)"
    unfolding holdAfter_colourFires [OF face(1)] by (simp add: App_init_def)
  have vt: "lastVideoTime s1 = Some 0"
    using onResult_videoTime [OF s1(1) fixture_first_frame] by simp
  from s1 face h vt show ?thesis by (simp add: face(2))
qed

text \<open>
  Claim C2, on the first frame of a session, blendshape-sourced, with \<open>jawOpen = 0.4\<close>,
  \<open>mouthFunnel = 0.05\<close>, no smile, tongue score 0 and a silent colour detector.  The
  frame classifies as SCREAM and the three proxy conditions hold
  (\<open>jawOpen \<ge> 0.35\<close>, \<open>mouthFunnel \<ge> 0.01\<close>, \<open>mouthSmile \<le> 0.45\<close>), yet the raw label is
  SCREAM and not FREAKY: \<^verbatim>\<open>tongueProxy\<close> reads \<^verbatim>\<open>nextLabel\<close> before \<^verbatim>\<open>classifyExpression\<close>
  has assigned it, while it still holds the initial NEUTRAL.
\<close>

theorem tongue_proxy_scream_never_fires:
  "map_sum id rawExpressionLabel
     (runFrames fixture_closure App_init
        [fixture_frame 0 fixture_no_canvas (Some [fixture_mouth])
           (Some [\<lparr>categoryName = ''jawOpen'', score = 0.4\<rparr>,
                  \<lparr>categoryName = ''mouthFunnel'', score = 0.05\<rparr>])]) = Inr SCREAM
   \<and> useBlendshapesOf
        (fixture_frame 0 fixture_no_canvas (Some [fixture_mouth])
           (Some [\<lparr>categoryName = ''jawOpen'', score = 0.4\<rparr>,
                  \<lparr>categoryName = ''mouthFunnel'', score = 0.05\<rparr>]))
   \<and> getBlendshapeDebug
        (categories
           (fixture_frame 0 fixture_no_canvas (Some [fixture_mouth])
              (Some [\<lparr>categoryName = ''jawOpen'', score = 0.4\<rparr>,
                     \<lparr>categoryName = ''mouthFunnel'', score = 0.05\<rparr>])))
       = Some \<lparr> jawOpen = 0.4, mouthFunnel = 0.05, mouthSmile = 0, eyeSquint = 0 \<rparr>
   \<and> (0.35::real) \<le> 0.4 \<and> (0.01::real) \<le> 0.05 \<and> (0::real) \<le> 0.45
   \<and> \<not> blendFires
        (fixture_frame 0 fixture_no_canvas (Some [fixture_mouth])
           (Some [\<lparr>categoryName = ''jawOpen'', score = 0.4\<rparr>,
                  \<lparr>categoryName = ''mouthFunnel'', score = 0.05\<rparr>]))"
proof -
  let ?cats = "Some [\<lparr>categoryName = ''jawOpen'', score = 0.4\<rparr>,
                     \<lparr>categoryName = ''mouthFunnel'', score = 0.05\<rparr>]"
  let ?F = "fixture_frame 0 fixture_no_canvas (Some [fixture_mouth]) ?cats"
  have cat: "categories ?F = ?cats" by simp
  have bd: "getBlendshapeDebug ?cats = Some \<lparr> jawOpen = 0.4, mouthFunnel = 0.05,
                mouthSmile = 0, eyeSquint = 0 \<rparr>"
    by (simp add: getBlendshapeDebug_def getScore_def orElse_def)
  have sig: "computeBlendshapeSignals ?cats
            = Some \<lparr> faceW = 1, mouthOpen = 0.425, smile = 0, eyeOpen = 1 \<rparr>"
    by (simp add: computeBlendshapeSignals_def getScore_def orElse_def)
  have ub: "useBlendshapesOf ?F"
    unfolding useBlendshapesOf_def cat bd sig by simp
  from fixture_first_result [of fixture_no_canvas ?cats] obtain s1 ls raw
    where s1: "onResult fixture_closure ?F App_init = Inr s1"
      "rawSignalsOf ?F (Some (fixture_mouth, ls)) = Some raw"
      "rawExpressionLabel s1 =
         classifiedLabel (getBlendshapeDebug (categories ?F)) (useBlendshapesOf ?F) raw App_init"
    by (auto simp: fixture_colour_quiet)
  from s1(2) ub have raw: "raw = \<lparr> faceW = 1, mouthOpen = 0.425, smile = 0, eyeOpen = 1 \<rparr>"
    unfolding rawSignalsOf_def cat sig by simp
  have "classifiedLabel (getBlendshapeDebug ?cats) True raw App_init = SCREAM"
    unfolding bd raw classifiedLabel_def
    by (simp add: App_init_def smoothUpdate_fresh blendLabel_def tongueProxy_def tongueOut_def
          orElse_def classifyExpression_def blendThresholds_def)
  with s1 ub bd cat show ?thesis by (simp add: blendFires_never)
qed



end
